theory Spec2Isabelle
  imports Main
begin

section \<open>Data model\<close>

text \<open>
  The error codes of \<^verbatim>\<open>bongocat_error_t\<close>, as \<^verbatim>\<open>bongocat_error_string\<close> in
  \<^verbatim>\<open>utils/error.c\<close> enumerates them.
\<close>

datatype bongocat_error_t =
    BONGOCAT_SUCCESS
  | BONGOCAT_ERROR_MEMORY
  | BONGOCAT_ERROR_FILE_IO
  | BONGOCAT_ERROR_WAYLAND
  | BONGOCAT_ERROR_CONFIG
  | BONGOCAT_ERROR_INPUT
  | BONGOCAT_ERROR_ANIMATION
  | BONGOCAT_ERROR_THREAD
  | BONGOCAT_ERROR_INVALID_PARAM

text \<open>
  \<^verbatim>\<open>config_t\<close> of \<^verbatim>\<open>config.h\<close>. The C \<^verbatim>\<open>int\<close> fields are integers; the two enum
  fields are integers as well, since a C enum object can hold any \<^verbatim>\<open>int\<close> and
  \<^verbatim>\<open>validate_config\<close> tests for that. \<^verbatim>\<open>keyboard_devices\<close> is a pointer: the address
  of an array of strings in the heap, \<open>None\<close> for \<^verbatim>\<open>NULL\<close>.
\<close>

type_synonym addr = nat

record config_t =
  screen_width :: int
  bar_height :: int
  keyboard_devices :: "addr option"
  num_keyboard_devices :: int
  cat_x_offset :: int
  cat_y_offset :: int
  cat_height :: int
  overlay_height :: int
  idle_frame :: int
  keypress_duration :: int
  test_animation_duration :: int
  test_animation_interval :: int
  fps :: int
  overlay_opacity :: int
  enable_debug :: int
  layer :: int
  overlay_position :: int
  animation_index :: int
  invert_color :: int
  crop_sprite :: int
  padding_x :: int
  padding_y :: int

definition POSITION_TOP :: int where "POSITION_TOP = 0"
definition POSITION_BOTTOM :: int where "POSITION_BOTTOM = 1"

text \<open>
  The macros that \<^verbatim>\<open>config.c\<close> takes from headers that are not among the sources
  (\<^verbatim>\<open>embedded_assets.h\<close>, \<^verbatim>\<open>bongocat.h\<close>), and whether the build defines the
  macros \<^verbatim>\<open>DISABLE_MEMORY_STATISTICS\<close> and \<^verbatim>\<open>DEBUG\<close>. They are parameters of the model.
\<close>

record build_constants =
  TOTAL_ANIMATIONS :: int
  BONGOCAT_ANIM_INDEX :: int
  DM20_AGUMON_ANIM_INDEX :: int
  BONGOCAT_NUM_FRAMES :: int
  MAX_NUM_FRAMES :: int
  DEFAULT_SCREEN_WIDTH :: int
  DEFAULT_BAR_HEIGHT :: int
  DISABLE_MEMORY_STATISTICS_defined :: bool
  DEBUG_defined :: bool

definition MIN_CAT_HEIGHT :: int where "MIN_CAT_HEIGHT = 10"
definition MAX_CAT_HEIGHT :: int where "MAX_CAT_HEIGHT = 200"
definition MIN_OVERLAY_HEIGHT :: int where "MIN_OVERLAY_HEIGHT = 20"
definition MAX_OVERLAY_HEIGHT :: int where "MAX_OVERLAY_HEIGHT = 300"
definition MIN_FPS :: int where "MIN_FPS = 1"
definition MAX_FPS :: int where "MAX_FPS = 120"
definition MIN_DURATION :: int where "MIN_DURATION = 10"
definition MAX_DURATION :: int where "MAX_DURATION = 5000"
definition MAX_INTERVAL :: int where "MAX_INTERVAL = 3600"

subsection \<open>The log\<close>

text \<open>
  \<^verbatim>\<open>utils/error.c\<close>: every logging function prints one line. A line is recorded as
  its level, its format string and its arguments.
\<close>

datatype log_level = ERROR | WARNING | INFO | DEBUG

datatype log_arg = I int | S string

type_synonym log_entry = "log_level \<times> string \<times> log_arg list"

section \<open>\<^verbatim>\<open>validate_config\<close>\<close>

text \<open>
  Each block of \<^verbatim>\<open>validate_config\<close> is one function from the configuration to the
  updated configuration and the lines it logs; \<open>then_check\<close> runs the next block on
  the result of the previous ones.
\<close>

definition then_check ::
  "config_t \<times> log_entry list \<Rightarrow> (config_t \<Rightarrow> config_t \<times> log_entry list) \<Rightarrow> config_t \<times> log_entry list"
where
  "then_check r f = (case r of (c, l) \<Rightarrow> (case f c of (c', l') \<Rightarrow> (c', l @ l')))"

definition check_cat_height :: "config_t \<Rightarrow> config_t \<times> log_entry list" where
  "check_cat_height c =
     (if cat_height c < MIN_CAT_HEIGHT \<or> cat_height c > MAX_CAT_HEIGHT
      then (c\<lparr>cat_height := (if cat_height c < MIN_CAT_HEIGHT then MIN_CAT_HEIGHT else MAX_CAT_HEIGHT)\<rparr>,
            [(WARNING, ''cat_height %d out of range [%d-%d], clamping'',
              [I (cat_height c), I MIN_CAT_HEIGHT, I MAX_CAT_HEIGHT])])
      else (c, []))"

definition check_overlay_height :: "config_t \<Rightarrow> config_t \<times> log_entry list" where
  "check_overlay_height c =
     (if overlay_height c < MIN_OVERLAY_HEIGHT \<or> overlay_height c > MAX_OVERLAY_HEIGHT
      then (c\<lparr>overlay_height :=
                (if overlay_height c < MIN_OVERLAY_HEIGHT then MIN_OVERLAY_HEIGHT else MAX_OVERLAY_HEIGHT)\<rparr>,
            [(WARNING, ''overlay_height %d out of range [%d-%d], clamping'',
              [I (overlay_height c), I MIN_OVERLAY_HEIGHT, I MAX_OVERLAY_HEIGHT])])
      else (c, []))"

definition check_fps :: "config_t \<Rightarrow> config_t \<times> log_entry list" where
  "check_fps c =
     (if fps c < MIN_FPS \<or> fps c > MAX_FPS
      then (c\<lparr>fps := (if fps c < MIN_FPS then MIN_FPS else MAX_FPS)\<rparr>,
            [(WARNING, ''fps %d out of range [%d-%d], clamping'', [I (fps c), I MIN_FPS, I MAX_FPS])])
      else (c, []))"

definition check_keypress_duration :: "config_t \<Rightarrow> config_t \<times> log_entry list" where
  "check_keypress_duration c =
     (if keypress_duration c < MIN_DURATION \<or> keypress_duration c > MAX_DURATION
      then (c\<lparr>keypress_duration :=
                (if keypress_duration c < MIN_DURATION then MIN_DURATION else MAX_DURATION)\<rparr>,
            [(WARNING, ''keypress_duration %d out of range [%d-%d], clamping'',
              [I (keypress_duration c), I MIN_DURATION, I MAX_DURATION])])
      else (c, []))"

definition check_test_animation_duration :: "config_t \<Rightarrow> config_t \<times> log_entry list" where
  "check_test_animation_duration c =
     (if test_animation_duration c < MIN_DURATION \<or> test_animation_duration c > MAX_DURATION
      then (c\<lparr>test_animation_duration :=
                (if test_animation_duration c < MIN_DURATION then MIN_DURATION else MAX_DURATION)\<rparr>,
            [(WARNING, ''test_animation_duration %d out of range [%d-%d], clamping'',
              [I (test_animation_duration c), I MIN_DURATION, I MAX_DURATION])])
      else (c, []))"

definition check_test_animation_interval :: "config_t \<Rightarrow> config_t \<times> log_entry list" where
  "check_test_animation_interval c =
     (if test_animation_interval c < 0 \<or> test_animation_interval c > MAX_INTERVAL
      then (c\<lparr>test_animation_interval := (if test_animation_interval c < 0 then 0 else MAX_INTERVAL)\<rparr>,
            [(WARNING, ''test_animation_interval %d out of range [0-%d], clamping'',
              [I (test_animation_interval c), I MAX_INTERVAL])])
      else (c, []))"

definition check_overlay_opacity :: "config_t \<Rightarrow> config_t \<times> log_entry list" where
  "check_overlay_opacity c =
     (if overlay_opacity c < 0 \<or> overlay_opacity c > 255
      then (c\<lparr>overlay_opacity := (if overlay_opacity c < 0 then 0 else 255)\<rparr>,
            [(WARNING, ''overlay_opacity %d out of range [0-255], clamping'', [I (overlay_opacity c)])])
      else (c, []))"

definition check_animation_index :: "build_constants \<Rightarrow> config_t \<Rightarrow> config_t \<times> log_entry list" where
  "check_animation_index K c =
     (if animation_index c < 0 \<or> animation_index c \<ge> TOTAL_ANIMATIONS K
      then (c\<lparr>animation_index := 0\<rparr>,
            [(WARNING, ''animation_index %d out of range [0-%d], resetting to 0'',
              [I (animation_index c), I (TOTAL_ANIMATIONS K - 1)])])
      else (c, []))"

definition check_idle_frame :: "build_constants \<Rightarrow> config_t \<Rightarrow> config_t \<times> log_entry list" where
  "check_idle_frame K c =
     (if animation_index c = BONGOCAT_ANIM_INDEX K
      then (if idle_frame c < 0 \<or> idle_frame c \<ge> BONGOCAT_NUM_FRAMES K
            then (c\<lparr>idle_frame := 0\<rparr>,
                  [(WARNING, ''idle_frame %d out of range [0-%d], resetting to 0'',
                    [I (idle_frame c), I (BONGOCAT_NUM_FRAMES K - 1)])])
            else (c, []))
      else (if idle_frame c < 0 \<or> idle_frame c \<ge> MAX_NUM_FRAMES K
            then (c\<lparr>idle_frame := 0\<rparr>,
                  [(WARNING, ''idle_frame %d out of range [0-%d], resetting to 0'',
                    [I (idle_frame c), I (MAX_NUM_FRAMES K - 1)])])
            else (c, [])))"

definition coerce_flags :: "config_t \<Rightarrow> config_t \<times> log_entry list" where
  "coerce_flags c =
     (c\<lparr>enable_debug := (if enable_debug c \<noteq> 0 then 1 else 0),
        invert_color := (if invert_color c \<noteq> 0 then 1 else 0)\<rparr>, [])"

definition check_overlay_position :: "config_t \<Rightarrow> config_t \<times> log_entry list" where
  "check_overlay_position c =
     (if overlay_position c \<noteq> POSITION_TOP \<and> overlay_position c \<noteq> POSITION_BOTTOM
      then (c\<lparr>overlay_position := POSITION_TOP\<rparr>,
            [(WARNING, ''Invalid overlay_position %d, resetting to top'', [I (overlay_position c)])])
      else (c, []))"

text \<open>
  \<^verbatim>\<open>abs\<close> on an \<^verbatim>\<open>int\<close>: the absolute value, but on \<^verbatim>\<open>INT_MIN\<close>, where the C function
  is undefined and the compiled negation gives \<^verbatim>\<open>INT_MIN\<close> back.
\<close>

definition abs_int :: "int \<Rightarrow> int" where
  "abs_int x = (if x = - 2147483648 then - 2147483648 else \<bar>x\<bar>)"

text \<open>The last block only warns.\<close>

definition check_cat_x_offset :: "config_t \<Rightarrow> config_t \<times> log_entry list" where
  "check_cat_x_offset c =
     (if abs_int (cat_x_offset c) > screen_width c
      then (c, [(WARNING, ''cat_x_offset %d may position cat off-screen (screen width: %d)'',
                 [I (cat_x_offset c), I (screen_width c)])])
      else (c, []))"

definition validate_checks :: "build_constants \<Rightarrow> config_t \<Rightarrow> config_t \<times> log_entry list" where
  "validate_checks K c =
     then_check (then_check (then_check (then_check (then_check (then_check
    (then_check (then_check (then_check (then_check (then_check
       (check_cat_height c)
       check_overlay_height)
       check_fps)
       check_keypress_duration)
       check_test_animation_duration)
       check_test_animation_interval)
       check_overlay_opacity)
       (check_animation_index K))
       (check_idle_frame K))
       coerce_flags)
       check_overlay_position)
       check_cat_x_offset"

text \<open>
  \<^verbatim>\<open>validate_config(config_t *config)\<close>: the argument is \<open>None\<close> for a \<^verbatim>\<open>NULL\<close>
  pointer, which \<^verbatim>\<open>BONGOCAT_CHECK_NULL\<close> answers with the error code it is given. The
  result is the return value, the object behind the pointer and the logged lines.
\<close>

definition validate_config ::
  "build_constants \<Rightarrow> config_t option \<Rightarrow> bongocat_error_t \<times> config_t option \<times> log_entry list"
where
  "validate_config K p =
     (case p of
        None \<Rightarrow> (BONGOCAT_ERROR_INVALID_PARAM, None, [])
      | Some c \<Rightarrow> (case validate_checks K c of (c', l) \<Rightarrow> (BONGOCAT_SUCCESS, Some c', l)))"

section \<open>Reading the configuration file\<close>

subsection \<open>The C library functions the parser calls\<close>

text \<open>\<^verbatim>\<open>isspace\<close> in the C locale (the program never calls \<^verbatim>\<open>setlocale\<close>).\<close>

definition isspace :: "char \<Rightarrow> bool" where
  "isspace c \<longleftrightarrow> c = CHR '' '' \<or> c = CHR 0x09 \<or> c = CHR 0x0A \<or> c = CHR 0x0B \<or> c = CHR 0x0C \<or> c = CHR 0x0D"

text \<open>
  \<^verbatim>\<open>fgets(line, n, file)\<close> on the unread rest of the file: it stores at most
  \<open>n - 1\<close> characters and stops after a newline. The result is the characters
  stored and the rest of the file.
\<close>

definition fgets :: "nat \<Rightarrow> string \<Rightarrow> string \<times> string" where
  "fgets n s =
     (let l = takeWhile (\<lambda>c. c \<noteq> CHR 0x0A) s in
      if length l < n - 1
      then (take (Suc (length l)) s, drop (Suc (length l)) s)
      else (take (n - 1) s, drop (n - 1) s))"

text \<open>A buffer read as a C string ends at its first NUL character.\<close>

definition c_string :: "string \<Rightarrow> string" where
  "c_string buf = takeWhile (\<lambda>c. c \<noteq> CHR 0x00) buf"

text \<open>
  \<^verbatim>\<open>sscanf(line, " %255[^=] = %255s", key, value) == 2\<close>: white space is skipped, the
  key is the longest run of at most 255 characters other than \<^verbatim>\<open>=\<close> and must not be
  empty, then white space, a literal \<^verbatim>\<open>=\<close>, white space, and the value is the longest
  run of at most 255 characters that are not white space and must not be empty. The
  result is \<open>None\<close> when \<^verbatim>\<open>sscanf\<close> returns anything but 2.
\<close>

definition sscanf_key_value :: "string \<Rightarrow> (string \<times> string) option" where
  "sscanf_key_value line =
     (let s1 = dropWhile isspace line;
          key = take 255 (takeWhile (\<lambda>c. c \<noteq> CHR ''='') s1)
      in if key = [] then None
         else (case dropWhile isspace (drop (length key) s1) of
                 [] \<Rightarrow> None
               | c # s2 \<Rightarrow>
                   if c \<noteq> CHR ''='' then None
                   else (let val = take 255 (takeWhile (\<lambda>c. \<not> isspace c) (dropWhile isspace s2))
                         in if val = [] then None else Some (key, val))))"

text \<open>
  The trimming of the key: \<^verbatim>\<open>key_start\<close> skips blanks and tabs at the front;
  \<^verbatim>\<open>key_end\<close> walks back over blanks and tabs while it is behind \<^verbatim>\<open>key_start\<close>, so the
  first character always stays.
\<close>

definition is_blank :: "char \<Rightarrow> bool" where
  "is_blank c \<longleftrightarrow> c = CHR '' '' \<or> c = CHR 0x09"

definition trim_key :: "string \<Rightarrow> string" where
  "trim_key key =
     (case dropWhile is_blank key of
        [] \<Rightarrow> []
      | c # cs \<Rightarrow> c # rev (dropWhile is_blank (rev cs)))"

text \<open>
  \<^verbatim>\<open>(int)strtol(value, NULL, 10)\<close>: white space, an optional sign, then decimal digits
  up to the first other character (no digit gives 0). \<^verbatim>\<open>strtol\<close> saturates at the
  bounds of a 64-bit \<^verbatim>\<open>long\<close>; the cast to \<^verbatim>\<open>int\<close> keeps the low 32 bits, as a
  two's complement number.
\<close>

definition is_digit :: "char \<Rightarrow> bool" where
  "is_digit c \<longleftrightarrow> 48 \<le> (of_char c :: nat) \<and> (of_char c :: nat) \<le> 57"

definition digits_value :: "string \<Rightarrow> int" where
  "digits_value ds = foldl (\<lambda>a d. 10 * a + (int (of_char d) - 48)) 0 ds"

definition LONG_MAX :: int where "LONG_MAX = 9223372036854775807"
definition LONG_MIN :: int where "LONG_MIN = - 9223372036854775808"

definition strtol :: "string \<Rightarrow> int" where
  "strtol s =
     (let s1 = dropWhile isspace s;
          neg = (case s1 of [] \<Rightarrow> False | c # _ \<Rightarrow> c = CHR ''-'');
          s2 = (case s1 of [] \<Rightarrow> [] | c # r \<Rightarrow> if c = CHR ''-'' \<or> c = CHR ''+'' then r else s1);
          v = digits_value (takeWhile is_digit s2);
          sv = (if neg then - v else v)
      in if sv > LONG_MAX then LONG_MAX else if sv < LONG_MIN then LONG_MIN else sv)"

definition int_of_long :: "int \<Rightarrow> int" where
  "int_of_long n = (n + 2147483648) mod 4294967296 - 2147483648"

definition strtol_int :: "string \<Rightarrow> int" where
  "strtol_int s = int_of_long (strtol s)"

subsection \<open>The static state of \<^verbatim>\<open>config.c\<close> and \<^verbatim>\<open>error.c\<close>, and the heap\<close>

text \<open>
  \<^verbatim>\<open>config.c\<close> keeps the device list in two static variables, shared by every call
  of \<^verbatim>\<open>load_config\<close>: \<^verbatim>\<open>config_keyboard_devices\<close>, a pointer to a heap array of strings,
  and \<^verbatim>\<open>config_num_devices\<close>. A heap block is the list of its slots; a slot is
  \<open>None\<close> while it holds no string (uninitialised, or \<^verbatim>\<open>NULL\<close>). Whether an allocation
  succeeds is decided by the environment: \<open>alloc_plan\<close> lists the outcomes of the
  coming requests, and a request beyond the plan succeeds.
\<close>

datatype alloc_outcome = Alloc_fail | Alloc_ok | Alloc_moved

record cfg_state =
  config_keyboard_devices :: "addr option"
  config_num_devices :: int
  heap :: "addr \<Rightarrow> string option list option"
  next_addr :: addr
  alloc_plan :: "alloc_outcome list"
  debug_enabled :: int
  log_lines :: "log_entry list"

definition next_outcome :: "cfg_state \<Rightarrow> alloc_outcome \<times> cfg_state" where
  "next_outcome st =
     (case alloc_plan st of
        [] \<Rightarrow> (Alloc_ok, st)
      | out # rest \<Rightarrow> (out, st\<lparr>alloc_plan := rest\<rparr>))"

text \<open>\<^verbatim>\<open>malloc\<close> of an array of \<open>n\<close> string pointers: a fresh block of \<open>n\<close> empty slots.\<close>

definition malloc_slots :: "nat \<Rightarrow> cfg_state \<Rightarrow> addr option \<times> cfg_state" where
  "malloc_slots n st =
     (case next_outcome st of
        (Alloc_fail, st') \<Rightarrow> (None, st')
      | (_, st') \<Rightarrow>
          (Some (next_addr st'),
           st'\<lparr>heap := (heap st')(next_addr st' \<mapsto> replicate n None), next_addr := Suc (next_addr st')\<rparr>))"

text \<open>
  \<^verbatim>\<open>malloc\<close> of the buffer of one string: only success or failure matters, the string
  itself is kept in the slot that points to it.
\<close>

definition malloc_string :: "cfg_state \<Rightarrow> bool \<times> cfg_state" where
  "malloc_string st = (case next_outcome st of (out, st') \<Rightarrow> (out \<noteq> Alloc_fail, st'))"

text \<open>
  \<^verbatim>\<open>realloc(ptr, n * sizeof(char*))\<close>: with a \<^verbatim>\<open>NULL\<close> pointer it is \<^verbatim>\<open>malloc\<close>; on
  failure the old block stays as it is; on success the block keeps its first slots and
  either stays at its address or moves to a fresh one, the old block being freed.
\<close>

definition resize_block :: "nat \<Rightarrow> string option list \<Rightarrow> string option list" where
  "resize_block n b = take n b @ replicate (n - length b) None"

definition realloc_slots :: "addr option \<Rightarrow> nat \<Rightarrow> cfg_state \<Rightarrow> addr option \<times> cfg_state" where
  "realloc_slots p n st =
     (case p of
        None \<Rightarrow> malloc_slots n st
      | Some a \<Rightarrow>
          (let old = (case heap st a of None \<Rightarrow> [] | Some b \<Rightarrow> b) in
           case next_outcome st of
             (Alloc_fail, st') \<Rightarrow> (None, st')
           | (Alloc_ok, st') \<Rightarrow> (Some a, st'\<lparr>heap := (heap st')(a \<mapsto> resize_block n old)\<rparr>)
           | (Alloc_moved, st') \<Rightarrow>
               (Some (next_addr st'),
                st'\<lparr>heap := ((heap st')(a := None))(next_addr st' \<mapsto> resize_block n old),
                    next_addr := Suc (next_addr st')\<rparr>)))"

definition store_slot :: "addr \<Rightarrow> nat \<Rightarrow> string option \<Rightarrow> cfg_state \<Rightarrow> cfg_state" where
  "store_slot a i v st =
     (case heap st a of
        None \<Rightarrow> st
      | Some b \<Rightarrow> st\<lparr>heap := (heap st)(a \<mapsto> b[i := v])\<rparr>)"

definition log_line :: "log_level \<Rightarrow> string \<Rightarrow> log_arg list \<Rightarrow> cfg_state \<Rightarrow> cfg_state" where
  "log_line lvl fmt args st = st\<lparr>log_lines := log_lines st @ [(lvl, fmt, args)]\<rparr>"

definition bongocat_log_debug :: "string \<Rightarrow> log_arg list \<Rightarrow> cfg_state \<Rightarrow> cfg_state" where
  "bongocat_log_debug fmt args st = (if debug_enabled st = 0 then st else log_line DEBUG fmt args st)"

definition bongocat_error_init :: "int \<Rightarrow> cfg_state \<Rightarrow> cfg_state" where
  "bongocat_error_init enable st = st\<lparr>debug_enabled := enable\<rparr>"

definition bongocat_error_string :: "bongocat_error_t \<Rightarrow> string" where
  "bongocat_error_string e =
     (case e of
        BONGOCAT_SUCCESS \<Rightarrow> ''Success''
      | BONGOCAT_ERROR_MEMORY \<Rightarrow> ''Memory allocation error''
      | BONGOCAT_ERROR_FILE_IO \<Rightarrow> ''File I/O error''
      | BONGOCAT_ERROR_WAYLAND \<Rightarrow> ''Wayland error''
      | BONGOCAT_ERROR_CONFIG \<Rightarrow> ''Configuration error''
      | BONGOCAT_ERROR_INPUT \<Rightarrow> ''Input error''
      | BONGOCAT_ERROR_ANIMATION \<Rightarrow> ''Animation error''
      | BONGOCAT_ERROR_THREAD \<Rightarrow> ''Thread error''
      | BONGOCAT_ERROR_INVALID_PARAM \<Rightarrow> ''Invalid parameter'')"

subsection \<open>\<^verbatim>\<open>parse_config_file\<close>\<close>

text \<open>
  The local state of \<^verbatim>\<open>parse_config_file\<close> while it reads lines: the object behind
  \<^verbatim>\<open>config\<close>, the static state, \<^verbatim>\<open>line_number\<close> and \<^verbatim>\<open>result\<close>.
\<close>

record parse_frame =
  config :: config_t
  globals :: cfg_state
  line_number :: int
  result :: bongocat_error_t

definition frame_log :: "log_level \<Rightarrow> string \<Rightarrow> log_arg list \<Rightarrow> parse_frame \<Rightarrow> parse_frame" where
  "frame_log lvl fmt args f = f\<lparr>globals := log_line lvl fmt args (globals f)\<rparr>"

text \<open>The branch of the keys \<^verbatim>\<open>keyboard_device\<close> and \<^verbatim>\<open>keyboard_devices\<close>.\<close>

definition add_keyboard_device :: "string \<Rightarrow> parse_frame \<Rightarrow> parse_frame" where
  "add_keyboard_device val f =
     (case realloc_slots (config_keyboard_devices (globals f))
             (nat (config_num_devices (globals f) + 1)) (globals f) of
        (p, st1) \<Rightarrow>
          (let st2 = st1\<lparr>config_keyboard_devices := p\<rparr> in
           case p of
             None \<Rightarrow>
               f\<lparr>globals := log_line ERROR ''Failed to allocate memory for keyboard_devices'' [] st2,
                 result := BONGOCAT_ERROR_MEMORY\<rparr>
           | Some a \<Rightarrow>
               (case malloc_string st2 of
                  (ok, st3) \<Rightarrow>
                    if ok
                    then (let st4 = store_slot a (nat (config_num_devices st3)) (Some val) st3;
                              st5 = st4\<lparr>config_num_devices := config_num_devices st4 + 1\<rparr>
                          in f\<lparr>config := (config f)\<lparr>keyboard_devices := config_keyboard_devices st5,
                                                    num_keyboard_devices := config_num_devices st5\<rparr>,
                               globals := st5\<rparr>)
                    else f\<lparr>globals := log_line ERROR ''Failed to allocate memory for keyboard_device entry'' []
                                        (store_slot a (nat (config_num_devices st3)) None st3),
                           result := BONGOCAT_ERROR_MEMORY\<rparr>)))"

text \<open>The chain of \<^verbatim>\<open>strcmp\<close> tests on the trimmed key.\<close>

definition set_key :: "build_constants \<Rightarrow> string \<Rightarrow> string \<Rightarrow> parse_frame \<Rightarrow> parse_frame" where
  "set_key K key_start val f =
     (if key_start = ''cat_x_offset'' then f\<lparr>config := (config f)\<lparr>cat_x_offset := strtol_int val\<rparr>\<rparr>
      else if key_start = ''cat_y_offset'' then f\<lparr>config := (config f)\<lparr>cat_y_offset := strtol_int val\<rparr>\<rparr>
      else if key_start = ''cat_height'' then f\<lparr>config := (config f)\<lparr>cat_height := strtol_int val\<rparr>\<rparr>
      else if key_start = ''overlay_height'' then f\<lparr>config := (config f)\<lparr>overlay_height := strtol_int val\<rparr>\<rparr>
      else if key_start = ''idle_frame'' then f\<lparr>config := (config f)\<lparr>idle_frame := strtol_int val\<rparr>\<rparr>
      else if key_start = ''keypress_duration''
        then f\<lparr>config := (config f)\<lparr>keypress_duration := strtol_int val\<rparr>\<rparr>
      else if key_start = ''test_animation_duration''
        then f\<lparr>config := (config f)\<lparr>test_animation_duration := strtol_int val\<rparr>\<rparr>
      else if key_start = ''test_animation_interval''
        then f\<lparr>config := (config f)\<lparr>test_animation_interval := strtol_int val\<rparr>\<rparr>
      else if key_start = ''fps'' then f\<lparr>config := (config f)\<lparr>fps := strtol_int val\<rparr>\<rparr>
      else if key_start = ''overlay_opacity'' then f\<lparr>config := (config f)\<lparr>overlay_opacity := strtol_int val\<rparr>\<rparr>
      else if key_start = ''enable_debug'' then f\<lparr>config := (config f)\<lparr>enable_debug := strtol_int val\<rparr>\<rparr>
      else if key_start = ''invert_color'' then f\<lparr>config := (config f)\<lparr>invert_color := strtol_int val\<rparr>\<rparr>
      else if key_start = ''overlay_position'' then
        (if val = ''top'' then f\<lparr>config := (config f)\<lparr>overlay_position := POSITION_TOP\<rparr>\<rparr>
         else if val = ''bottom'' then f\<lparr>config := (config f)\<lparr>overlay_position := POSITION_BOTTOM\<rparr>\<rparr>
         else (frame_log WARNING (''Invalid overlay_position '%s', using 'top'' @ [CHR 0x27]) [S val] f)
                \<lparr>config := (config f)\<lparr>overlay_position := POSITION_TOP\<rparr>\<rparr>)
      else if key_start = ''animation_name'' then
        (if val = ''bongocat'' then f\<lparr>config := (config f)\<lparr>animation_index := BONGOCAT_ANIM_INDEX K\<rparr>\<rparr>
         else if val = ''agumon'' \<or> val = ''dm20:agumon'' \<or> val = ''dm:agumon''
           then f\<lparr>config := (config f)\<lparr>animation_index := DM20_AGUMON_ANIM_INDEX K\<rparr>\<rparr>
         else (frame_log WARNING (''Invalid animation_name '%s', using 'bongocat'' @ [CHR 0x27]) [S val] f)
                \<lparr>config := (config f)\<lparr>animation_index := BONGOCAT_ANIM_INDEX K\<rparr>\<rparr>)
      else if key_start = ''keyboard_device'' \<or> key_start = ''keyboard_devices'' then add_keyboard_device val f
      else frame_log WARNING ''Unknown configuration key '%s' at line %d'' [S key_start, I (line_number f)] f)"

text \<open>One turn of the \<^verbatim>\<open>while (fgets(...))\<close> loop, on the characters \<^verbatim>\<open>fgets\<close> stored.\<close>

definition parse_line :: "build_constants \<Rightarrow> string \<Rightarrow> parse_frame \<Rightarrow> parse_frame" where
  "parse_line K buf f0 =
     (let f = f0\<lparr>line_number := line_number f0 + 1\<rparr>;
          l0 = c_string buf;
          line = (if length l0 > 0 \<and> last l0 = CHR 0x0A then butlast l0 else l0)
      in if (case line of [] \<Rightarrow> True | c # _ \<Rightarrow> c = CHR ''#'')
            \<or> length (takeWhile is_blank line) = length line
         then f
         else (case sscanf_key_value line of
                 Some (key, val) \<Rightarrow> set_key K (trim_key key) val f
               | None \<Rightarrow>
                   if length line > 0
                   then frame_log WARNING ''Invalid configuration line %d: %s'' [I (line_number f), S line] f
                   else f))"

function read_lines :: "build_constants \<Rightarrow> string \<Rightarrow> parse_frame \<Rightarrow> parse_frame" where
  "read_lines K content f =
     (if content = [] then f
      else read_lines K (snd (fgets 512 content)) (parse_line K (fst (fgets 512 content)) f))"
  by pat_completeness auto
termination
  by (relation "measure (\<lambda>(K, content, f). length content)") (auto simp: fgets_def Let_def)

declare read_lines.simps [simp del]

text \<open>
  \<^verbatim>\<open>parse_config_file(config, config_file_path)\<close>. The file system is a map from path
  to content; \<^verbatim>\<open>fopen\<close> fails where it has no entry. Both pointers may be \<^verbatim>\<open>NULL\<close>
  (\<open>None\<close>). The result is the return value, the object behind \<^verbatim>\<open>config\<close> and the
  static state.
\<close>

definition parse_config_file ::
  "build_constants \<Rightarrow> (string \<Rightarrow> string option) \<Rightarrow> config_t option \<Rightarrow> string option \<Rightarrow> cfg_state
     \<Rightarrow> bongocat_error_t \<times> config_t option \<times> cfg_state"
where
  "parse_config_file K fs p config_file_path st =
     (case p of
        None \<Rightarrow> (BONGOCAT_ERROR_INVALID_PARAM, None, st)
      | Some c \<Rightarrow>
          (let file_path = (case config_file_path of None \<Rightarrow> ''bongocat.conf'' | Some path \<Rightarrow> path) in
           case fs file_path of
             None \<Rightarrow>
               (BONGOCAT_SUCCESS, Some c,
                log_line INFO ''Config file '%s' not found, using defaults'' [S file_path] st)
           | Some content \<Rightarrow>
               (let f = read_lines K content
                          \<lparr>config = c, globals = st, line_number = 0, result = BONGOCAT_SUCCESS\<rparr>
                in (result f, Some (config f),
                    if result f = BONGOCAT_SUCCESS
                    then log_line INFO ''Loaded configuration from bongocat.conf'' [] (globals f)
                    else globals f))))"

subsection \<open>\<^verbatim>\<open>load_config\<close>\<close>

text \<open>
  The compound literal that \<^verbatim>\<open>load_config\<close> assigns to \<^verbatim>\<open>*config\<close>; the members it
  does not name are zero.
\<close>

definition default_config :: "build_constants \<Rightarrow> config_t" where
  "default_config K =
     \<lparr>screen_width = DEFAULT_SCREEN_WIDTH K,
      bar_height = DEFAULT_BAR_HEIGHT K,
      keyboard_devices = None,
      num_keyboard_devices = 0,
      cat_x_offset = 100,
      cat_y_offset = 10,
      cat_height = 40,
      overlay_height = 50,
      idle_frame = 0,
      keypress_duration = 100,
      test_animation_duration = 200,
      test_animation_interval = 3,
      fps = 60,
      overlay_opacity = 150,
      enable_debug = 1,
      layer = 0,
      overlay_position = POSITION_TOP,
      animation_index = BONGOCAT_ANIM_INDEX K,
      invert_color = 0,
      crop_sprite = 0,
      padding_x = 0,
      padding_y = 0\<rparr>"

text \<open>The block "Set default keyboard device if none specified".\<close>

definition set_default_device :: "config_t \<Rightarrow> cfg_state \<Rightarrow> config_t \<times> cfg_state" where
  "set_default_device c st =
     (if config_num_devices st = 0
      then (case malloc_slots 1 st of
              (p, st1) \<Rightarrow>
                (let st2 = st1\<lparr>config_keyboard_devices := p\<rparr> in
                 case p of
                   None \<Rightarrow> (c, st2)
                 | Some a \<Rightarrow>
                     (case malloc_string st2 of
                        (ok, st3) \<Rightarrow>
                          if ok
                          then (let st4 = (store_slot a 0 (Some ''/dev/input/event4'') st3)
                                            \<lparr>config_num_devices := 1\<rparr>
                                in (c\<lparr>keyboard_devices := config_keyboard_devices st4,
                                      num_keyboard_devices := config_num_devices st4\<rparr>, st4))
                          else (c, store_slot a 0 None st3))))
      else (c, st))"

text \<open>The debug lines at the end of \<^verbatim>\<open>load_config\<close>.\<close>

definition log_loaded_config :: "build_constants \<Rightarrow> config_t \<Rightarrow> cfg_state \<Rightarrow> cfg_state" where
  "log_loaded_config K c st =
     (let st1 = bongocat_log_debug ''Configuration loaded successfully'' [] st;
          st2 = bongocat_log_debug ''  Screen: %dx%d'' [I (screen_width c), I (bar_height c)] st1;
          st3 = (if animation_index c = BONGOCAT_ANIM_INDEX K
                 then bongocat_log_debug ''  Cat: %dx%d at offset (%d,%d)''
                        [I (cat_height c), I ((cat_height c * 954) div 393),
                         I (cat_x_offset c), I (cat_y_offset c)] st2
                 else bongocat_log_debug ''  Digimon: %02d at offset (%d,%d)''
                        [I (animation_index c), I (cat_x_offset c), I (cat_y_offset c)] st2);
          st4 = bongocat_log_debug ''  FPS: %d, Opacity: %d'' [I (fps c), I (overlay_opacity c)] st3
      in bongocat_log_debug ''  Position: %s''
           [S (if overlay_position c = POSITION_TOP then ''top'' else ''bottom'')] st4)"

text \<open>
  \<^verbatim>\<open>load_config(config, config_file_path)\<close>: the return value, the object behind
  \<^verbatim>\<open>config\<close> when the function returns, and the static state.
\<close>

definition load_config ::
  "build_constants \<Rightarrow> (string \<Rightarrow> string option) \<Rightarrow> config_t option \<Rightarrow> string option \<Rightarrow> cfg_state
     \<Rightarrow> bongocat_error_t \<times> config_t option \<times> cfg_state"
where
  "load_config K fs p config_file_path st =
     (case p of
        None \<Rightarrow> (BONGOCAT_ERROR_INVALID_PARAM, None, st)
      | Some _ \<Rightarrow>
          (case set_default_device (default_config K) st of
             (c1, st1) \<Rightarrow>
               (case parse_config_file K fs (Some c1) config_file_path st1 of
                  (r2, p2, st2) \<Rightarrow>
                    if r2 \<noteq> BONGOCAT_SUCCESS
                    then (r2, p2, log_line ERROR ''Failed to parse configuration file: %s''
                                    [S (bongocat_error_string r2)] st2)
                    else (case validate_config K p2 of
                            (r3, p3, warnings) \<Rightarrow>
                              (let st3 = st2\<lparr>log_lines := log_lines st2 @ warnings\<rparr> in
                               if r3 \<noteq> BONGOCAT_SUCCESS
                               then (r3, p3, log_line ERROR ''Configuration validation failed: %s''
                                               [S (bongocat_error_string r3)] st3)
                               else (case p3 of
                                       None \<Rightarrow> (r3, None, st3)
                                     | Some c3 \<Rightarrow>
                                         (let c4 = c3\<lparr>bar_height := overlay_height c3\<rparr>;
                                              st4 = bongocat_error_init (enable_debug c4) st3
                                          in (BONGOCAT_SUCCESS, Some c4, log_loaded_config K c4 st4))))))))"

section \<open>\<^verbatim>\<open>core/main.c\<close>\<close>

text \<open>
  The functions of the renderer, the animation, the input monitor, the configuration
  watcher and the memory statistics are not among the sources. A call of one of them, and
  of \<^verbatim>\<open>unlink\<close> and \<^verbatim>\<open>exit\<close>, is recorded with the arguments that matter here.
\<close>

datatype call =
    Unlink string
  | Config_watcher_cleanup
  | Animation_cleanup
  | Wayland_cleanup
  | Input_cleanup
  | Config_cleanup
  | Memory_print_stats
  | Memory_leak_check
  | Exit int
  | Wayland_update_config config_t
  | Input_restart_monitoring "addr option" int int

text \<open>
  The static state of \<^verbatim>\<open>main.c\<close> that the functions below use, with the state of
  \<^verbatim>\<open>config.c\<close> and the calls made so far.
\<close>

record main_state =
  running :: int
  g_config :: config_t
  statics :: cfg_state
  calls :: "call list"


definition main_log :: "log_level \<Rightarrow> string \<Rightarrow> log_arg list \<Rightarrow> main_state \<Rightarrow> main_state" where
  "main_log lvl fmt args s = s\<lparr>statics := log_line lvl fmt args (statics s)\<rparr>"

definition do_call :: "call \<Rightarrow> main_state \<Rightarrow> main_state" where
  "do_call x s = s\<lparr>calls := calls s @ [x]\<rparr>"

subsection \<open>\<^verbatim>\<open>config_devices_changed\<close>\<close>

text \<open>
  Reading \<^verbatim>\<open>config->keyboard_devices[i]\<close> as a string: defined only where the pointer
  is to a live block and slot \<open>i\<close> of it holds a string; \<^verbatim>\<open>strcmp\<close> on anything else
  is undefined behaviour, \<open>None\<close>.
\<close>

definition device_at :: "(addr \<Rightarrow> string option list option) \<Rightarrow> config_t \<Rightarrow> nat \<Rightarrow> string option" where
  "device_at h c i =
     (case keyboard_devices c of
        None \<Rightarrow> None
      | Some a \<Rightarrow> (case h a of None \<Rightarrow> None | Some b \<Rightarrow> if i < length b then b ! i else None))"

text \<open>The inner loop over \<open>j\<close>, from \<open>j\<close> on: whether \<open>dev\<close> is found in the old list.\<close>

fun find_old_device ::
  "(addr \<Rightarrow> string option list option) \<Rightarrow> config_t \<Rightarrow> string \<Rightarrow> nat list \<Rightarrow> bool option"
where
  "find_old_device h old_config dev [] = Some False"
| "find_old_device h old_config dev (j # js) =
     (case device_at h old_config j of
        None \<Rightarrow> None
      | Some d \<Rightarrow> if dev = d then Some True else find_old_device h old_config dev js)"

text \<open>The outer loop over \<open>i\<close>.\<close>

fun any_new_device ::
  "(addr \<Rightarrow> string option list option) \<Rightarrow> config_t \<Rightarrow> config_t \<Rightarrow> nat list \<Rightarrow> bool option"
where
  "any_new_device h old_config new_config [] = Some False"
| "any_new_device h old_config new_config (i # is) =
     (case device_at h new_config i of
        None \<Rightarrow> None
      | Some dev \<Rightarrow>
          (case find_old_device h old_config dev [0 ..< nat (num_keyboard_devices old_config)] of
             None \<Rightarrow> None
           | Some found \<Rightarrow>
               if \<not> found then Some True else any_new_device h old_config new_config is))"

definition config_devices_changed ::
  "(addr \<Rightarrow> string option list option) \<Rightarrow> config_t \<Rightarrow> config_t \<Rightarrow> bool option"
where
  "config_devices_changed h old_config new_config =
     (if num_keyboard_devices old_config \<noteq> num_keyboard_devices new_config then Some True
      else any_new_device h old_config new_config [0 ..< nat (num_keyboard_devices new_config)])"

subsection \<open>\<^verbatim>\<open>config_reload_callback\<close>\<close>

text \<open>
  \<open>temp_config\<close> is the uninitialised local object whose address goes to
  \<^verbatim>\<open>load_config\<close>; \<open>input_result\<close> is what \<^verbatim>\<open>input_restart_monitoring\<close> returns when
  it is called. The result is \<open>None\<close> where the comparison of the device lists is
  undefined behaviour.
\<close>

definition restart_input :: "bongocat_error_t \<Rightarrow> main_state \<Rightarrow> main_state" where
  "restart_input input_result s =
     (let s1 = main_log INFO ''Input devices changed, restarting input monitoring'' [] s;
          s2 = do_call (Input_restart_monitoring (keyboard_devices (g_config s1))
                          (num_keyboard_devices (g_config s1)) (enable_debug (g_config s1))) s1
      in if input_result \<noteq> BONGOCAT_SUCCESS
         then main_log ERROR ''Failed to restart input monitoring: %s''
                [S (bongocat_error_string input_result)] s2
         else main_log INFO ''Input monitoring restarted successfully'' [] s2)"

definition config_reload_callback ::
  "build_constants \<Rightarrow> (string \<Rightarrow> string option) \<Rightarrow> config_t \<Rightarrow> bongocat_error_t \<Rightarrow> string
     \<Rightarrow> main_state \<Rightarrow> main_state option"
where
  "config_reload_callback K fs temp_config input_result config_path s0 =
     (let s = main_log INFO ''Reloading configuration from: %s'' [S config_path] s0 in
      case load_config K fs (Some temp_config) (Some config_path) (statics s) of
        (r, p, st) \<Rightarrow>
          if r \<noteq> BONGOCAT_SUCCESS
          then Some (main_log INFO ''Keeping current configuration'' []
                      (main_log ERROR ''Failed to reload config: %s'' [S (bongocat_error_string r)]
                         (s\<lparr>statics := st\<rparr>)))
          else (case p of
                  None \<Rightarrow> None
                | Some loaded \<Rightarrow>
                    (let old_config = g_config s;
                         s1 = s\<lparr>statics := st, g_config := loaded\<rparr>;
                         s2 = do_call (Wayland_update_config (g_config s1)) s1
                     in case config_devices_changed (heap (statics s2)) old_config (g_config s2) of
                          None \<Rightarrow> None
                        | Some changed \<Rightarrow>
                            (let s3 = (if changed then restart_input input_result s2 else s2);
                                 s4 = main_log INFO ''Configuration reloaded successfully!'' [] s3
                             in Some (main_log INFO ''New screen dimensions: %dx%d''
                                        [I (screen_width (g_config s4)), I (bar_height (g_config s4))] s4)))))"

subsection \<open>\<^verbatim>\<open>signal_handler\<close>\<close>

definition SIGINT :: int where "SIGINT = 2"
definition SIGTERM :: int where "SIGTERM = 15"
definition SIGCHLD :: int where "SIGCHLD = 17"

text \<open>
  What the handler does, step by step: a write to the flag \<^verbatim>\<open>running\<close>, a call of a
  logging function, a call of \<^verbatim>\<open>waitpid\<close>.
\<close>

datatype handler_op =
    Write_running int
  | Log_call log_level string "log_arg list"
  | Waitpid_call

text \<open>
  \<^verbatim>\<open>while (waitpid(-1, NULL, WNOHANG) > 0);\<close> The list holds what the coming calls of
  \<^verbatim>\<open>waitpid\<close> return; once it is used up no child is left and \<^verbatim>\<open>waitpid\<close> returns -1.
\<close>

fun reap_children :: "int list \<Rightarrow> handler_op list" where
  "reap_children [] = [Waitpid_call]"
| "reap_children (r # rs) = (if r > 0 then Waitpid_call # reap_children rs else [Waitpid_call])"

definition signal_handler :: "int list \<Rightarrow> int \<Rightarrow> handler_op list" where
  "signal_handler waitpid_results sig =
     (if sig = SIGINT \<or> sig = SIGTERM
      then [Log_call INFO ''Received signal %d, shutting down gracefully'' [I sig], Write_running 0]
      else if sig = SIGCHLD then reap_children waitpid_results
      else [Log_call WARNING ''Received unexpected signal %d'' [I sig]])"

text \<open>The handler's steps applied to the state of the process.\<close>

fun apply_handler_op :: "main_state \<Rightarrow> handler_op \<Rightarrow> main_state" where
  "apply_handler_op s (Write_running v) = s\<lparr>running := v\<rparr>"
| "apply_handler_op s (Log_call lvl fmt args) = main_log lvl fmt args s"
| "apply_handler_op s Waitpid_call = s"

definition deliver_signal :: "int list \<Rightarrow> int \<Rightarrow> main_state \<Rightarrow> main_state" where
  "deliver_signal waitpid_results sig s = foldl apply_handler_op s (signal_handler waitpid_results sig)"

subsection \<open>\<^verbatim>\<open>system_cleanup_and_exit\<close>\<close>



section \<open>Notions used to state the properties\<close>

text \<open>The configuration that \<^verbatim>\<open>validate_config\<close> leaves behind a pointer to \<open>c\<close>.\<close>

definition validated :: "build_constants \<Rightarrow> config_t \<Rightarrow> config_t" where
  "validated K c = fst (validate_checks K c)"

text \<open>The snapshot in the result of \<^verbatim>\<open>validate_config\<close> and of \<^verbatim>\<open>load_config\<close>.\<close>

definition snapshot_of :: "bongocat_error_t \<times> config_t option \<times> 'a \<Rightarrow> config_t option" where
  "snapshot_of r = fst (snd r)"

text \<open>Clamping to the nearest bound of \<open>[lo, hi]\<close>.\<close>

definition clamp_to :: "int \<Rightarrow> int \<Rightarrow> int \<Rightarrow> int" where
  "clamp_to lo hi v = (if v < lo then lo else if hi < v then hi else v)"

text \<open>A flag coerced to 0 or 1.\<close>

definition flag01 :: "int \<Rightarrow> int" where
  "flag01 v = (if v = 0 then 0 else 1)"

definition checked_overlay_position :: "int \<Rightarrow> int" where
  "checked_overlay_position p = (if p = POSITION_BOTTOM then POSITION_BOTTOM else POSITION_TOP)"

definition checked_animation_index :: "build_constants \<Rightarrow> int \<Rightarrow> int" where
  "checked_animation_index K a = (if 0 \<le> a \<and> a < TOTAL_ANIMATIONS K then a else 0)"

text \<open>
  The bound of the idle frame for animation \<open>a\<close>: the frame count of bongocat for
  bongocat, the one constant \<^verbatim>\<open>MAX_NUM_FRAMES\<close> for every other animation.
\<close>

definition idle_frame_bound :: "build_constants \<Rightarrow> int \<Rightarrow> int" where
  "idle_frame_bound K a = (if a = BONGOCAT_ANIM_INDEX K then BONGOCAT_NUM_FRAMES K else MAX_NUM_FRAMES K)"

definition checked_idle_frame :: "build_constants \<Rightarrow> int \<Rightarrow> int \<Rightarrow> int" where
  "checked_idle_frame K a i = (if 0 \<le> i \<and> i < idle_frame_bound K a then i else 0)"



subsection \<open>Concrete inputs\<close>

text \<open>
  A build with two animations, bongocat with 4 frames at index 0 and agumon at index 1,
  and \<^verbatim>\<open>MAX_NUM_FRAMES\<close> 15.
\<close>

definition example_constants :: build_constants where
  "example_constants =
     \<lparr>TOTAL_ANIMATIONS = 2, BONGOCAT_ANIM_INDEX = 0, DM20_AGUMON_ANIM_INDEX = 1,
      BONGOCAT_NUM_FRAMES = 4, MAX_NUM_FRAMES = 15,
      DEFAULT_SCREEN_WIDTH = 1920, DEFAULT_BAR_HEIGHT = 40,
      DISABLE_MEMORY_STATISTICS_defined = False, DEBUG_defined = False\<rparr>"

text \<open>The defaults with the values of the spec's clamping examples and an invalid index and position.\<close>

definition out_of_range_config :: config_t where
  "out_of_range_config =
     (default_config example_constants)
       \<lparr>fps := 500, test_animation_interval := - 5, overlay_opacity := 999, cat_height := 5,
        overlay_height := 301, keypress_duration := 9, test_animation_duration := 5001,
        enable_debug := 7, invert_color := - 1, overlay_position := 2, animation_index := 2,
        idle_frame := 4\<rparr>"


subsection \<open>Notions for the signal handler and the shutdown\<close>

definition is_flag_write :: "handler_op \<Rightarrow> bool" where
  "is_flag_write x = (case x of Write_running _ \<Rightarrow> True | _ \<Rightarrow> False)"


text \<open>A process before any load: no device array, an empty heap, an empty log, no call made.\<close>

definition initial_statics :: cfg_state where
  "initial_statics =
     \<lparr>config_keyboard_devices = None, config_num_devices = 0, heap = (\<lambda>a. None), next_addr = 1,
      alloc_plan = [], debug_enabled = 1, log_lines = []\<rparr>"

definition initial_state :: main_state where
  "initial_state =
     \<lparr>running = 1, g_config = default_config example_constants, statics = initial_statics, calls = []\<rparr>"

subsection \<open>Notions for the parser and the loader\<close>

text \<open>The path that \<^verbatim>\<open>parse_config_file\<close> opens.\<close>

definition path_or_default :: "string option \<Rightarrow> string" where
  "path_or_default config_file_path = (case config_file_path of None \<Rightarrow> ''bongocat.conf'' | Some path \<Rightarrow> path)"

text \<open>
  The line as the loop body sees it after it removed the trailing newline, and the test
  that makes the loop skip a line (a comment, an empty line, blanks and tabs only).
\<close>

definition stored_line :: "string \<Rightarrow> string" where
  "stored_line buf =
     (if length (c_string buf) > 0 \<and> last (c_string buf) = CHR 0x0A
      then butlast (c_string buf) else c_string buf)"

definition ignored_line :: "string \<Rightarrow> bool" where
  "ignored_line line \<longleftrightarrow>
     (case line of [] \<Rightarrow> True | c # _ \<Rightarrow> c = CHR ''#'') \<or> length (takeWhile is_blank line) = length line"

text \<open>The keys that \<^verbatim>\<open>parse_config_file\<close> compares with.\<close>

definition known_keys :: "string list" where
  "known_keys =
     [''cat_x_offset'', ''cat_y_offset'', ''cat_height'', ''overlay_height'', ''idle_frame'',
      ''keypress_duration'', ''test_animation_duration'', ''test_animation_interval'', ''fps'',
      ''overlay_opacity'', ''enable_debug'', ''invert_color'', ''overlay_position'', ''animation_name'',
      ''keyboard_device'', ''keyboard_devices'']"

text \<open>No allocation of the plan fails.\<close>

definition no_alloc_failure :: "cfg_state \<Rightarrow> bool" where
  "no_alloc_failure st \<longleftrightarrow> Alloc_fail \<notin> set (alloc_plan st)"

definition frame_ok :: "parse_frame \<Rightarrow> bool" where
  "frame_ok f \<longleftrightarrow> result f = BONGOCAT_SUCCESS \<and> no_alloc_failure (globals f)"

definition warnings_of :: "cfg_state \<Rightarrow> log_entry list" where
  "warnings_of st = filter (\<lambda>e. fst e = WARNING) (log_lines st)"

text \<open>
  The device list of a configuration, read through its pointer in a heap: the first
  \<^verbatim>\<open>num_keyboard_devices\<close> slots, \<open>None\<close> for a slot that cannot be read as a string.
\<close>

definition device_list :: "(addr \<Rightarrow> string option list option) \<Rightarrow> config_t \<Rightarrow> string option list" where
  "device_list h c = map (device_at h c) [0 ..< nat (num_keyboard_devices c)]"

definition loaded_devices :: "bongocat_error_t \<times> config_t option \<times> cfg_state \<Rightarrow> string option list" where
  "loaded_devices r = (case snapshot_of r of None \<Rightarrow> [] | Some c \<Rightarrow> device_list (heap (snd (snd r))) c)"

subsection \<open>Concrete files and runs\<close>

definition file_of_lines :: "string list \<Rightarrow> string" where
  "file_of_lines ls = concat (map (\<lambda>l. l @ [CHR 0x0A]) ls)"

text \<open>A file system whose only file is \<^verbatim>\<open>bongocat.conf\<close>.\<close>

definition fs_of :: "string \<Rightarrow> string \<Rightarrow> string option" where
  "fs_of content = (\<lambda>path. if path = ''bongocat.conf'' then Some content else None)"

definition no_files :: "string \<Rightarrow> string option" where
  "no_files = (\<lambda>path. None)"

definition unknown_key_file :: string where
  "unknown_key_file = file_of_lines [''foo=bar'', ''cat_height=55'']"

definition device_file :: "string \<Rightarrow> string" where
  "device_file fps_value = file_of_lines [''keyboard_device=/dev/input/event3'', ''fps='' @ fps_value]"

definition plain_file :: "string \<Rightarrow> string" where
  "plain_file fps_value = file_of_lines [''fps='' @ fps_value]"

text \<open>Two successive calls of \<^verbatim>\<open>load_config\<close> on the same file, in a fresh process.\<close>

definition load_twice ::
  "string \<Rightarrow> (bongocat_error_t \<times> config_t option \<times> cfg_state) \<times> (bongocat_error_t \<times> config_t option \<times> cfg_state)"
where
  "load_twice content =
     (let first = load_config example_constants (fs_of content)
                    (Some (default_config example_constants)) None initial_statics;
          second = load_config example_constants (fs_of content)
                    (Some (default_config example_constants)) None (snd (snd first))
      in (first, second))"

text \<open>The process after \<^verbatim>\<open>main\<close> loaded the configuration into \<^verbatim>\<open>g_config\<close>.\<close>

definition state_after_load :: "string \<Rightarrow> main_state" where
  "state_after_load content =
     (case load_config example_constants (fs_of content)
             (Some (default_config example_constants)) None initial_statics of
        (r, p, st) \<Rightarrow>
          initial_state\<lparr>g_config := (case p of None \<Rightarrow> default_config example_constants | Some c \<Rightarrow> c),
                        statics := st\<rparr>)"

definition with_alloc_plan :: "alloc_outcome list \<Rightarrow> main_state \<Rightarrow> main_state" where
  "with_alloc_plan plan s = s\<lparr>statics := (statics s)\<lparr>alloc_plan := plan\<rparr>\<rparr>"

subsection \<open>Notions for the reload\<close>

text \<open>Every slot of the device list of \<open>c\<close> can be read as a string in heap \<open>h\<close>.\<close>

definition devices_readable :: "(addr \<Rightarrow> string option list option) \<Rightarrow> config_t \<Rightarrow> bool" where
  "devices_readable h c \<longleftrightarrow> None \<notin> set (device_list h c)"

text \<open>
  The call of \<^verbatim>\<open>load_config\<close> that \<^verbatim>\<open>config_reload_callback\<close> makes, after its first
  log line.
\<close>

definition candidate_load ::
  "build_constants \<Rightarrow> (string \<Rightarrow> string option) \<Rightarrow> config_t \<Rightarrow> string \<Rightarrow> main_state
     \<Rightarrow> bongocat_error_t \<times> config_t option \<times> cfg_state"
where
  "candidate_load K fs temp_config config_path s =
     load_config K fs (Some temp_config) (Some config_path)
       (statics (main_log INFO ''Reloading configuration from: %s'' [S config_path] s))"

text \<open>
  The reload callback as the watcher runs it on a new content of the file, with the
  input monitor restarting without error.
\<close>

definition reload_result :: "string \<Rightarrow> main_state \<Rightarrow> main_state option" where
  "reload_result content s =
     config_reload_callback example_constants (fs_of content)
       (default_config example_constants) BONGOCAT_SUCCESS ''bongocat.conf'' s"

text \<open>
  A running process short of memory. Its configuration came from a file with one device
  line; of the coming allocations the first succeeds and moves the block, the second
  fails.
\<close>

definition moved_then_failed_state :: main_state where
  "moved_then_failed_state = with_alloc_plan [Alloc_moved, Alloc_fail] (state_after_load (device_file ''30''))"

text \<open>
  The same process with the first two allocations succeeding in place and the third
  failing, and a file with two device lines.
\<close>

definition third_allocation_fails_state :: main_state where
  "third_allocation_fails_state =
     with_alloc_plan [Alloc_ok, Alloc_ok, Alloc_fail] (state_after_load (device_file ''30''))"

definition two_device_file :: string where
  "two_device_file = file_of_lines [''keyboard_device=/dev/input/event5'', ''keyboard_device=/dev/input/event6'']"

section \<open>Properties of \<^verbatim>\<open>validate_config\<close>\<close>

lemma fst_then_check: "fst (then_check r f) = fst (f (fst r))"
  by (simp add: then_check_def split: prod.splits)

lemma fst_check_cat_height:
  "fst (check_cat_height c) = c\<lparr>cat_height := clamp_to MIN_CAT_HEIGHT MAX_CAT_HEIGHT (cat_height c)\<rparr>"
  by (simp add: check_cat_height_def clamp_to_def)

lemma fst_check_overlay_height:
  "fst (check_overlay_height c) =
     c\<lparr>overlay_height := clamp_to MIN_OVERLAY_HEIGHT MAX_OVERLAY_HEIGHT (overlay_height c)\<rparr>"
  by (simp add: check_overlay_height_def clamp_to_def)

lemma fst_check_fps: "fst (check_fps c) = c\<lparr>fps := clamp_to MIN_FPS MAX_FPS (fps c)\<rparr>"
  by (simp add: check_fps_def clamp_to_def)

lemma fst_check_keypress_duration:
  "fst (check_keypress_duration c) =
     c\<lparr>keypress_duration := clamp_to MIN_DURATION MAX_DURATION (keypress_duration c)\<rparr>"
  by (simp add: check_keypress_duration_def clamp_to_def)

lemma fst_check_test_animation_duration:
  "fst (check_test_animation_duration c) =
     c\<lparr>test_animation_duration := clamp_to MIN_DURATION MAX_DURATION (test_animation_duration c)\<rparr>"
  by (simp add: check_test_animation_duration_def clamp_to_def)

lemma fst_check_test_animation_interval:
  "fst (check_test_animation_interval c) =
     c\<lparr>test_animation_interval := clamp_to 0 MAX_INTERVAL (test_animation_interval c)\<rparr>"
  by (simp add: check_test_animation_interval_def clamp_to_def)

lemma fst_check_overlay_opacity:
  "fst (check_overlay_opacity c) = c\<lparr>overlay_opacity := clamp_to 0 255 (overlay_opacity c)\<rparr>"
  by (simp add: check_overlay_opacity_def clamp_to_def)

lemma fst_check_animation_index:
  "fst (check_animation_index K c) =
     c\<lparr>animation_index := checked_animation_index K (animation_index c)\<rparr>"
  by (simp add: check_animation_index_def checked_animation_index_def)

lemma fst_check_idle_frame:
  "fst (check_idle_frame K c) =
     c\<lparr>idle_frame := checked_idle_frame K (animation_index c) (idle_frame c)\<rparr>"
  by (simp add: check_idle_frame_def checked_idle_frame_def idle_frame_bound_def)

lemma fst_coerce_flags:
  "fst (coerce_flags c) =
     c\<lparr>enable_debug := flag01 (enable_debug c), invert_color := flag01 (invert_color c)\<rparr>"
  by (simp add: coerce_flags_def flag01_def)

lemma fst_check_overlay_position:
  "fst (check_overlay_position c) =
     c\<lparr>overlay_position := checked_overlay_position (overlay_position c)\<rparr>"
  by (simp add: check_overlay_position_def checked_overlay_position_def POSITION_TOP_def POSITION_BOTTOM_def)

lemma fst_check_cat_x_offset: "fst (check_cat_x_offset c) = c"
  by (simp add: check_cat_x_offset_def)

text \<open>What the twelve blocks do to the fields, all at once.\<close>

lemma validated_fields:
  "validated K c =
     c\<lparr>cat_height := clamp_to MIN_CAT_HEIGHT MAX_CAT_HEIGHT (cat_height c),
       overlay_height := clamp_to MIN_OVERLAY_HEIGHT MAX_OVERLAY_HEIGHT (overlay_height c),
       fps := clamp_to MIN_FPS MAX_FPS (fps c),
       keypress_duration := clamp_to MIN_DURATION MAX_DURATION (keypress_duration c),
       test_animation_duration := clamp_to MIN_DURATION MAX_DURATION (test_animation_duration c),
       test_animation_interval := clamp_to 0 MAX_INTERVAL (test_animation_interval c),
       overlay_opacity := clamp_to 0 255 (overlay_opacity c),
       animation_index := checked_animation_index K (animation_index c),
       idle_frame := checked_idle_frame K (checked_animation_index K (animation_index c)) (idle_frame c),
       enable_debug := flag01 (enable_debug c),
       invert_color := flag01 (invert_color c),
       overlay_position := checked_overlay_position (overlay_position c)\<rparr>"
  unfolding validated_def validate_checks_def
  by (simp add: fst_then_check fst_check_cat_height fst_check_overlay_height fst_check_fps
      fst_check_keypress_duration fst_check_test_animation_duration fst_check_test_animation_interval
      fst_check_overlay_opacity fst_check_animation_index fst_check_idle_frame fst_coerce_flags
      fst_check_overlay_position fst_check_cat_x_offset)

lemma validate_config_Some:
  "validate_config K (Some c) = (BONGOCAT_SUCCESS, Some (validated K c), snd (validate_checks K c))"
  by (simp add: validate_config_def validated_def split: prod.splits)

lemma clamp_to_bounds: "lo \<le> hi \<Longrightarrow> lo \<le> clamp_to lo hi v \<and> clamp_to lo hi v \<le> hi"
  by (simp add: clamp_to_def)

lemma clamp_to_idem: "lo \<le> hi \<Longrightarrow> clamp_to lo hi (clamp_to lo hi v) = clamp_to lo hi v"
  by (simp add: clamp_to_def)

lemma flag01_idem: "flag01 (flag01 v) = flag01 v"
  by (simp add: flag01_def)

lemma checked_overlay_position_idem:
  "checked_overlay_position (checked_overlay_position p) = checked_overlay_position p"
  by (simp add: checked_overlay_position_def)

lemma checked_animation_index_idem:
  "checked_animation_index K (checked_animation_index K a) = checked_animation_index K a"
  by (simp add: checked_animation_index_def)

lemma checked_idle_frame_idem:
  "checked_idle_frame K a (checked_idle_frame K a i) = checked_idle_frame K a i"
  by (simp add: checked_idle_frame_def)

lemma validated_idem: "validated K (validated K c) = validated K c"
  by (subst validated_fields [of K "validated K c"])
     (simp add: validated_fields clamp_to_idem flag01_idem checked_overlay_position_idem
        checked_animation_index_idem checked_idle_frame_idem
        MIN_CAT_HEIGHT_def MAX_CAT_HEIGHT_def MIN_OVERLAY_HEIGHT_def MAX_OVERLAY_HEIGHT_def
        MIN_FPS_def MAX_FPS_def MIN_DURATION_def MAX_DURATION_def MAX_INTERVAL_def)

text \<open>
  C2. For every configuration behind a non-null pointer, \<^verbatim>\<open>validate_config\<close> returns
  success and leaves a compliant snapshot: cat height, overlay height, fps, the two
  durations, the test-animation interval and the opacity are clamped to the nearest bound
  of [10,200], [20,300], [1,120], [10,5000], [10,5000], [0,3600] and [0,255] and so lie
  within them; \<^verbatim>\<open>enable_debug\<close> and \<^verbatim>\<open>invert_color\<close> become 0 or 1; an overlay position
  that is neither top nor bottom becomes top; an animation index outside
  \<open>[0, TOTAL_ANIMATIONS)\<close> becomes 0, which is the default animation's index when
  \<^verbatim>\<open>BONGOCAT_ANIM_INDEX\<close> is 0.
\<close>

theorem validate_config_compliant:
  "validate_config K (Some c) = (BONGOCAT_SUCCESS, Some (validated K c), snd (validate_checks K c))
   \<and> cat_height (validated K c) = clamp_to 10 200 (cat_height c)
   \<and> overlay_height (validated K c) = clamp_to 20 300 (overlay_height c)
   \<and> fps (validated K c) = clamp_to 1 120 (fps c)
   \<and> keypress_duration (validated K c) = clamp_to 10 5000 (keypress_duration c)
   \<and> test_animation_duration (validated K c) = clamp_to 10 5000 (test_animation_duration c)
   \<and> test_animation_interval (validated K c) = clamp_to 0 3600 (test_animation_interval c)
   \<and> overlay_opacity (validated K c) = clamp_to 0 255 (overlay_opacity c)
   \<and> 10 \<le> cat_height (validated K c) \<and> cat_height (validated K c) \<le> 200
   \<and> 20 \<le> overlay_height (validated K c) \<and> overlay_height (validated K c) \<le> 300
   \<and> 1 \<le> fps (validated K c) \<and> fps (validated K c) \<le> 120
   \<and> 10 \<le> keypress_duration (validated K c) \<and> keypress_duration (validated K c) \<le> 5000
   \<and> 10 \<le> test_animation_duration (validated K c) \<and> test_animation_duration (validated K c) \<le> 5000
   \<and> 0 \<le> test_animation_interval (validated K c) \<and> test_animation_interval (validated K c) \<le> 3600
   \<and> 0 \<le> overlay_opacity (validated K c) \<and> overlay_opacity (validated K c) \<le> 255
   \<and> enable_debug (validated K c) = (if enable_debug c = 0 then 0 else 1)
   \<and> invert_color (validated K c) = (if invert_color c = 0 then 0 else 1)
   \<and> overlay_position (validated K c)
       = (if overlay_position c = POSITION_BOTTOM then POSITION_BOTTOM else POSITION_TOP)
   \<and> animation_index (validated K c)
       = (if 0 \<le> animation_index c \<and> animation_index c < TOTAL_ANIMATIONS K then animation_index c else 0)
   \<and> (BONGOCAT_ANIM_INDEX K = 0 \<longrightarrow> \<not> (0 \<le> animation_index c \<and> animation_index c < TOTAL_ANIMATIONS K)
        \<longrightarrow> animation_index (validated K c) = animation_index (default_config K))"
proof -
  have fields:
    "cat_height (validated K c) = clamp_to 10 200 (cat_height c)"
    "overlay_height (validated K c) = clamp_to 20 300 (overlay_height c)"
    "fps (validated K c) = clamp_to 1 120 (fps c)"
    "keypress_duration (validated K c) = clamp_to 10 5000 (keypress_duration c)"
    "test_animation_duration (validated K c) = clamp_to 10 5000 (test_animation_duration c)"
    "test_animation_interval (validated K c) = clamp_to 0 3600 (test_animation_interval c)"
    "overlay_opacity (validated K c) = clamp_to 0 255 (overlay_opacity c)"
    by (simp_all add: validated_fields MIN_CAT_HEIGHT_def MAX_CAT_HEIGHT_def MIN_OVERLAY_HEIGHT_def
        MAX_OVERLAY_HEIGHT_def MIN_FPS_def MAX_FPS_def MIN_DURATION_def MAX_DURATION_def MAX_INTERVAL_def)
  have bounds:
    "10 \<le> cat_height (validated K c) \<and> cat_height (validated K c) \<le> 200"
    "20 \<le> overlay_height (validated K c) \<and> overlay_height (validated K c) \<le> 300"
    "1 \<le> fps (validated K c) \<and> fps (validated K c) \<le> 120"
    "10 \<le> keypress_duration (validated K c) \<and> keypress_duration (validated K c) \<le> 5000"
    "10 \<le> test_animation_duration (validated K c) \<and> test_animation_duration (validated K c) \<le> 5000"
    "0 \<le> test_animation_interval (validated K c) \<and> test_animation_interval (validated K c) \<le> 3600"
    "0 \<le> overlay_opacity (validated K c) \<and> overlay_opacity (validated K c) \<le> 255"
    unfolding fields by (rule clamp_to_bounds, simp)+
  have flags:
    "enable_debug (validated K c) = (if enable_debug c = 0 then 0 else 1)"
    "invert_color (validated K c) = (if invert_color c = 0 then 0 else 1)"
    by (simp_all add: validated_fields flag01_def)
  have pos: "overlay_position (validated K c)
       = (if overlay_position c = POSITION_BOTTOM then POSITION_BOTTOM else POSITION_TOP)"
    by (simp add: validated_fields checked_overlay_position_def)
  have anim: "animation_index (validated K c)
       = (if 0 \<le> animation_index c \<and> animation_index c < TOTAL_ANIMATIONS K then animation_index c else 0)"
    by (simp add: validated_fields checked_animation_index_def)
  have dflt: "BONGOCAT_ANIM_INDEX K = 0 \<longrightarrow> \<not> (0 \<le> animation_index c \<and> animation_index c < TOTAL_ANIMATIONS K)
        \<longrightarrow> animation_index (validated K c) = animation_index (default_config K)"
    by (simp add: anim default_config_def)
  show ?thesis
    using validate_config_Some [of K c] fields bounds flags pos anim dflt by blast
qed

text \<open>
  The spec's examples: fps 500 becomes 120, the interval -5 becomes 0, the opacity 999
  becomes 255; with them an animation index 2 of two animations becomes 0.
\<close>

theorem validate_config_compliant_witness:
  "fst (validate_config example_constants (Some out_of_range_config)) = BONGOCAT_SUCCESS
   \<and> fps (validated example_constants out_of_range_config) = 120
   \<and> test_animation_interval (validated example_constants out_of_range_config) = 0
   \<and> overlay_opacity (validated example_constants out_of_range_config) = 255
   \<and> cat_height (validated example_constants out_of_range_config) = 10
   \<and> overlay_height (validated example_constants out_of_range_config) = 300
   \<and> enable_debug (validated example_constants out_of_range_config) = 1
   \<and> overlay_position (validated example_constants out_of_range_config) = POSITION_TOP
   \<and> BONGOCAT_ANIM_INDEX example_constants = 0
   \<and> \<not> (0 \<le> animation_index out_of_range_config
          \<and> animation_index out_of_range_config < TOTAL_ANIMATIONS example_constants)
   \<and> animation_index (validated example_constants out_of_range_config)
       = animation_index (default_config example_constants)"
  using validate_config_compliant [of example_constants out_of_range_config]
  by (simp add: example_constants_def out_of_range_config_def default_config_def clamp_to_def
      POSITION_TOP_def POSITION_BOTTOM_def)

text \<open>
  C4. \<^verbatim>\<open>validate_config\<close> is idempotent on the configuration: validating the snapshot
  that a validation left gives the same snapshot again, for every configuration and also
  for the null pointer.
\<close>

theorem validate_config_idempotent:
  "snapshot_of (validate_config K (snapshot_of (validate_config K p))) = snapshot_of (validate_config K p)
   \<and> validated K (validated K c) = validated K c"
proof (cases p)
  case None
  then show ?thesis by (simp add: snapshot_of_def validate_config_def validated_idem)
next
  case (Some x)
  then show ?thesis by (simp add: snapshot_of_def validate_config_Some validated_idem)
qed

theorem validate_config_idempotent_witness:
  "snapshot_of (validate_config example_constants
      (snapshot_of (validate_config example_constants (Some out_of_range_config))))
     = snapshot_of (validate_config example_constants (Some out_of_range_config))
   \<and> fps (validated example_constants (validated example_constants out_of_range_config)) = 120"
  using validate_config_idempotent [of example_constants "Some out_of_range_config" out_of_range_config]
  by (simp add: validated_fields out_of_range_config_def clamp_to_def MIN_FPS_def MAX_FPS_def)




section \<open>Properties of the signal handler and of the shutdown\<close>

lemma reap_children_calls:
  "reap_children rs = replicate (Suc (length (takeWhile (\<lambda>r. 0 < r) rs))) Waitpid_call"
  by (induction rs) simp_all

lemma foldl_waitpid: "foldl apply_handler_op s (replicate n Waitpid_call) = s"
  by (induction n) simp_all

text \<open>
  C6, as the code has it. On \<^verbatim>\<open>SIGINT\<close> and \<^verbatim>\<open>SIGTERM\<close> the handler logs one line and then
  writes 0 to the flag \<^verbatim>\<open>running\<close>; on \<^verbatim>\<open>SIGCHLD\<close> it reaps the children itself, calling
  \<^verbatim>\<open>waitpid\<close> once more than the number of children it reaped, and writes no flag; on any
  other signal it logs a warning. The only value it ever writes to a flag is 0.
\<close>

theorem signal_handler_steps:
  "(sig = SIGINT \<or> sig = SIGTERM \<longrightarrow>
      signal_handler rs sig
        = [Log_call INFO ''Received signal %d, shutting down gracefully'' [I sig], Write_running 0])
   \<and> (sig = SIGCHLD \<longrightarrow>
      signal_handler rs sig = replicate (Suc (length (takeWhile (\<lambda>r. 0 < r) rs))) Waitpid_call)
   \<and> (sig \<noteq> SIGINT \<and> sig \<noteq> SIGTERM \<and> sig \<noteq> SIGCHLD \<longrightarrow>
      signal_handler rs sig = [Log_call WARNING ''Received unexpected signal %d'' [I sig]])
   \<and> (\<forall>v. Write_running v \<in> set (signal_handler rs sig) \<longrightarrow> v = 0)
   \<and> running (deliver_signal rs sig s) = (if sig = SIGINT \<or> sig = SIGTERM then 0 else running s)"
  by (auto simp add: signal_handler_def deliver_signal_def reap_children_calls foldl_waitpid main_log_def
      SIGINT_def SIGTERM_def SIGCHLD_def)

theorem signal_handler_steps_witness:
  "signal_handler [] SIGTERM
     = [Log_call INFO ''Received signal %d, shutting down gracefully'' [I 15], Write_running 0]
   \<and> signal_handler [7, 9, 0] SIGCHLD = [Waitpid_call, Waitpid_call, Waitpid_call]
   \<and> signal_handler [] 1 = [Log_call WARNING ''Received unexpected signal %d'' [I 1]]
   \<and> Write_running 0 \<in> set (signal_handler [] SIGTERM)
   \<and> running (deliver_signal [] SIGTERM initial_state) = 0
   \<and> running (deliver_signal [7, 9, 0] SIGCHLD initial_state) = 1"
  using signal_handler_steps [of SIGTERM "[]" initial_state]
    signal_handler_steps [of SIGCHLD "[7, 9, 0]" initial_state]
    signal_handler_steps [of 1 "[]" initial_state]
  by (simp add: SIGINT_def SIGTERM_def SIGCHLD_def initial_state_def)

text \<open>
  C6 as stated fails: on \<^verbatim>\<open>SIGINT\<close> the handler calls the logging function before it
  writes the flag, and on \<^verbatim>\<open>SIGCHLD\<close> it calls \<^verbatim>\<open>waitpid\<close> and writes no flag at all.
\<close>

theorem signal_handler_only_flag_writes_counterexample:
  "signal_handler [] SIGINT
     = [Log_call INFO ''Received signal %d, shutting down gracefully'' [I 2], Write_running 0]
   \<and> \<not> list_all is_flag_write (signal_handler [] SIGINT)
   \<and> signal_handler [7, 0] SIGCHLD = [Waitpid_call, Waitpid_call]
   \<and> \<not> list_all is_flag_write (signal_handler [7, 0] SIGCHLD)"
  by (simp add: signal_handler_def is_flag_write_def SIGINT_def SIGTERM_def SIGCHLD_def)

lemma calls_do_call [simp]: "calls (do_call x s) = calls s @ [x]"
  by (simp add: do_call_def)

lemma calls_main_log [simp]: "calls (main_log lvl fmt args s) = calls s"
  by (simp add: main_log_def)

lemma g_config_do_call [simp]: "g_config (do_call x s) = g_config s"
  by (simp add: do_call_def)

lemma g_config_main_log [simp]: "g_config (main_log lvl fmt args s) = g_config s"
  by (simp add: main_log_def)

lemma running_do_call [simp]: "running (do_call x s) = running s"
  by (simp add: do_call_def)

lemma running_main_log [simp]: "running (main_log lvl fmt args s) = running s"
  by (simp add: main_log_def)

lemma statics_do_call [simp]: "statics (do_call x s) = statics s"
  by (simp add: do_call_def)

lemma statics_main_log [simp]: "statics (main_log lvl fmt args s) = log_line lvl fmt args (statics s)"
  by (simp add: main_log_def)




section \<open>Properties of the parser and of \<^verbatim>\<open>load_config\<close>\<close>

lemma next_outcome_ok:
  "no_alloc_failure st \<Longrightarrow> next_outcome st = (out, st') \<Longrightarrow> out \<noteq> Alloc_fail \<and> no_alloc_failure st'"
  by (auto simp: next_outcome_def no_alloc_failure_def split: list.splits)

lemma malloc_slots_ok:
  assumes "no_alloc_failure st" and "malloc_slots n st = (p, st')"
  shows "p \<noteq> None \<and> no_alloc_failure st'"
proof -
  obtain out st1 where o: "next_outcome st = (out, st1)" by (cases "next_outcome st")
  from next_outcome_ok [OF assms(1) o] have "out \<noteq> Alloc_fail" and "no_alloc_failure st1" by simp_all
  with assms(2) show ?thesis
    by (cases out) (auto simp: malloc_slots_def o no_alloc_failure_def)
qed

lemma realloc_slots_ok:
  assumes "no_alloc_failure st" and "realloc_slots q n st = (p, st')"
  shows "p \<noteq> None \<and> no_alloc_failure st'"
proof (cases q)
  case None
  with assms(2) have "malloc_slots n st = (p, st')" by (simp add: realloc_slots_def)
  from malloc_slots_ok [OF assms(1) this] show ?thesis .
next
  case (Some a)
  obtain out st1 where o: "next_outcome st = (out, st1)" by (cases "next_outcome st")
  from next_outcome_ok [OF assms(1) o] have "out \<noteq> Alloc_fail" and "no_alloc_failure st1" by simp_all
  with assms(2) Some show ?thesis
    by (cases out) (auto simp: realloc_slots_def o Let_def no_alloc_failure_def)
qed

lemma malloc_string_ok:
  assumes "no_alloc_failure st" and "malloc_string st = (ok, st')"
  shows "ok \<and> no_alloc_failure st'"
proof -
  obtain out st1 where o: "next_outcome st = (out, st1)" by (cases "next_outcome st")
  from next_outcome_ok [OF assms(1) o] assms(2) show ?thesis
    by (auto simp: malloc_string_def o)
qed

lemma store_slot_plan [simp]: "no_alloc_failure (store_slot a i v st) = no_alloc_failure st"
  by (simp add: store_slot_def no_alloc_failure_def split: option.splits)

lemma log_line_plan [simp]: "no_alloc_failure (log_line lvl fmt args st) = no_alloc_failure st"
  by (simp add: log_line_def no_alloc_failure_def)

lemma add_keyboard_device_ok: "frame_ok f \<Longrightarrow> frame_ok (add_keyboard_device val f)"
proof -
  assume ok: "frame_ok f"
  obtain p st1 where r: "realloc_slots (config_keyboard_devices (globals f))
             (nat (config_num_devices (globals f) + 1)) (globals f) = (p, st1)"
    by (cases "realloc_slots (config_keyboard_devices (globals f))
             (nat (config_num_devices (globals f) + 1)) (globals f)")
  from ok realloc_slots_ok [OF _ r] obtain a where p: "p = Some a" and n1: "no_alloc_failure st1"
    by (auto simp: frame_ok_def)
  let ?st2 = "st1\<lparr>config_keyboard_devices := Some a\<rparr>"
  have n2: "no_alloc_failure ?st2" using n1 by (simp add: no_alloc_failure_def)
  obtain b st3 where m: "malloc_string ?st2 = (b, st3)" by (cases "malloc_string ?st2")
  from malloc_string_ok [OF n2 m] have b: b and n3: "no_alloc_failure st3" by simp_all
  from n3 have "no_alloc_failure
      ((store_slot a (nat (config_num_devices st3)) (Some val) st3)
         \<lparr>config_num_devices := config_num_devices (store_slot a (nat (config_num_devices st3)) (Some val) st3) + 1\<rparr>)"
    using store_slot_plan [of a "nat (config_num_devices st3)" "Some val" st3]
    by (simp add: no_alloc_failure_def)
  with ok show ?thesis
    by (simp add: add_keyboard_device_def r p m b Let_def frame_ok_def)
qed

lemma frame_log_ok [simp]: "frame_ok (frame_log lvl fmt args f) = frame_ok f"
  by (simp add: frame_log_def frame_ok_def)

lemma config_update_ok [simp]: "frame_ok (f\<lparr>config := c\<rparr>) = frame_ok f"
  by (simp add: frame_ok_def)

lemma line_number_update_ok [simp]: "frame_ok (f\<lparr>line_number := n\<rparr>) = frame_ok f"
  by (simp add: frame_ok_def)

lemma set_key_ok: "frame_ok f \<Longrightarrow> frame_ok (set_key K key val f)"
  by (simp add: set_key_def add_keyboard_device_ok)

lemma set_key_unknown:
  "key \<notin> set known_keys \<Longrightarrow>
     set_key K key val f
       = frame_log WARNING ''Unknown configuration key '%s' at line %d'' [S key, I (line_number f)] f"
  by (simp add: set_key_def known_keys_def)

lemma parse_line_cases:
  "parse_line K buf f =
     (if ignored_line (stored_line buf) then f\<lparr>line_number := line_number f + 1\<rparr>
      else (case sscanf_key_value (stored_line buf) of
              Some (key, val) \<Rightarrow> set_key K (trim_key key) val (f\<lparr>line_number := line_number f + 1\<rparr>)
            | None \<Rightarrow>
                frame_log WARNING ''Invalid configuration line %d: %s''
                  [I (line_number f + 1), S (stored_line buf)] (f\<lparr>line_number := line_number f + 1\<rparr>)))"
  by (auto simp add: parse_line_def stored_line_def ignored_line_def Let_def split: option.splits list.splits)

lemma parse_line_ok: "frame_ok f \<Longrightarrow> frame_ok (parse_line K buf f)"
  by (simp add: parse_line_cases set_key_ok split: option.splits)

lemma read_lines_ok: "frame_ok f \<Longrightarrow> frame_ok (read_lines K content f)"
proof (induction K content f rule: read_lines.induct)
  case (1 K content f)
  show ?case
  proof (cases "content = []")
    case True
    with "1.prems" show ?thesis by (simp add: read_lines.simps)
  next
    case False
    with "1.IH" [OF False parse_line_ok [OF "1.prems"]] show ?thesis
      by (subst read_lines.simps) simp
  qed
qed

lemma parse_config_file_never_fails:
  "no_alloc_failure st \<Longrightarrow> fst (parse_config_file K fs (Some c) path st) = BONGOCAT_SUCCESS"
  using read_lines_ok [of "\<lparr>config = c, globals = st, line_number = 0, result = BONGOCAT_SUCCESS\<rparr>" K]
  by (simp add: parse_config_file_def Let_def frame_ok_def split: option.splits)

text \<open>
  C9. Parsing does not fail on recoverable input. When the file cannot be opened,
  \<^verbatim>\<open>parse_config_file\<close> returns success, leaves the configuration it was given (the
  defaults) and logs one informational line. Whatever the file holds, the result is
  success unless an allocation fails. A line that is not ignored and that \<^verbatim>\<open>sscanf\<close>
  cannot split changes nothing but the log, which gets one warning with the line number
  and the line; a line with a key that is none of the known ones changes nothing but the
  log, which gets one warning with the key and the line number. After every line the loop
  goes on with the rest of the file.
\<close>

theorem parse_config_file_tolerant:
  "(fs (path_or_default path) = None \<longrightarrow>
      parse_config_file K fs (Some c) path st
        = (BONGOCAT_SUCCESS, Some c,
           log_line INFO ''Config file '%s' not found, using defaults'' [S (path_or_default path)] st))
   \<and> (no_alloc_failure st \<longrightarrow> fst (parse_config_file K fs (Some c) path st) = BONGOCAT_SUCCESS)
   \<and> (\<not> ignored_line (stored_line buf) \<and> sscanf_key_value (stored_line buf) = None \<longrightarrow>
        parse_line K buf f
          = frame_log WARNING ''Invalid configuration line %d: %s''
              [I (line_number f + 1), S (stored_line buf)] (f\<lparr>line_number := line_number f + 1\<rparr>))
   \<and> (\<not> ignored_line (stored_line buf) \<and> sscanf_key_value (stored_line buf) = Some (key, val)
        \<and> trim_key key \<notin> set known_keys \<longrightarrow>
        parse_line K buf f
          = frame_log WARNING ''Unknown configuration key '%s' at line %d''
              [S (trim_key key), I (line_number f + 1)] (f\<lparr>line_number := line_number f + 1\<rparr>))
   \<and> (content \<noteq> [] \<longrightarrow>
        read_lines K content f
          = read_lines K (snd (fgets 512 content)) (parse_line K (fst (fgets 512 content)) f))"
proof -
  have missing: "fs (path_or_default path) = None \<longrightarrow>
      parse_config_file K fs (Some c) path st
        = (BONGOCAT_SUCCESS, Some c,
           log_line INFO ''Config file '%s' not found, using defaults'' [S (path_or_default path)] st)"
    by (simp add: parse_config_file_def path_or_default_def Let_def)
  have invalid: "\<not> ignored_line (stored_line buf) \<and> sscanf_key_value (stored_line buf) = None \<longrightarrow>
        parse_line K buf f
          = frame_log WARNING ''Invalid configuration line %d: %s''
              [I (line_number f + 1), S (stored_line buf)] (f\<lparr>line_number := line_number f + 1\<rparr>)"
    by (simp add: parse_line_cases)
  have unknown: "\<not> ignored_line (stored_line buf) \<and> sscanf_key_value (stored_line buf) = Some (key, val)
        \<and> trim_key key \<notin> set known_keys \<longrightarrow>
        parse_line K buf f
          = frame_log WARNING ''Unknown configuration key '%s' at line %d''
              [S (trim_key key), I (line_number f + 1)] (f\<lparr>line_number := line_number f + 1\<rparr>)"
    by (simp add: parse_line_cases set_key_unknown)
  have continues: "content \<noteq> [] \<longrightarrow>
        read_lines K content f
          = read_lines K (snd (fgets 512 content)) (parse_line K (fst (fgets 512 content)) f)"
    by (subst read_lines.simps) simp
  from missing parse_config_file_never_fails [of st K fs c path] invalid unknown continues
  show ?thesis by blast
qed

text \<open>
  The spec's example, a file with \<^verbatim>\<open>foo=bar\<close> and then \<^verbatim>\<open>cat_height=55\<close>, loaded in a
  fresh process: success, \<^verbatim>\<open>cat_height\<close> 55, and exactly one warning, for the key
  \<^verbatim>\<open>foo\<close> at line 1. With no file at all the load succeeds with the defaults (and the
  default device, and the bar height taken from the overlay height).
\<close>

theorem parse_config_file_tolerant_witness:
  "no_files (path_or_default None) = None
   \<and> fst (parse_config_file example_constants no_files (Some (default_config example_constants)) None
             initial_statics) = BONGOCAT_SUCCESS
   \<and> snapshot_of (parse_config_file example_constants no_files (Some (default_config example_constants)) None
             initial_statics) = Some (default_config example_constants)
   \<and> snapshot_of (load_config example_constants no_files (Some (default_config example_constants)) None
             initial_statics)
       = Some ((default_config example_constants)
                 \<lparr>keyboard_devices := Some 1, num_keyboard_devices := 1, bar_height := 50\<rparr>)
   \<and> no_alloc_failure initial_statics
   \<and> fst (parse_config_file example_constants (fs_of unknown_key_file)
             (Some (default_config example_constants)) None initial_statics) = BONGOCAT_SUCCESS
   \<and> fst (load_config example_constants (fs_of unknown_key_file)
             (Some (default_config example_constants)) None initial_statics) = BONGOCAT_SUCCESS
   \<and> map_option cat_height (snapshot_of (load_config example_constants (fs_of unknown_key_file)
             (Some (default_config example_constants)) None initial_statics)) = Some 55
   \<and> warnings_of (snd (snd (load_config example_constants (fs_of unknown_key_file)
             (Some (default_config example_constants)) None initial_statics)))
       = [(WARNING, ''Unknown configuration key '%s' at line %d'', [S ''foo'', I 1])]
   \<and> \<not> ignored_line (stored_line (''junk'' @ [CHR 0x0A]))
   \<and> sscanf_key_value (stored_line (''junk'' @ [CHR 0x0A])) = None
   \<and> sscanf_key_value (stored_line (''foo=bar'' @ [CHR 0x0A])) = Some (''foo'', ''bar'')
   \<and> trim_key ''foo'' \<notin> set known_keys"
proof -
  have facts:
    "no_files (path_or_default None) = None"
    "snapshot_of (load_config example_constants no_files (Some (default_config example_constants)) None
             initial_statics)
       = Some ((default_config example_constants)
                 \<lparr>keyboard_devices := Some 1, num_keyboard_devices := 1, bar_height := 50\<rparr>)"
    "no_alloc_failure initial_statics"
    "fst (load_config example_constants (fs_of unknown_key_file)
             (Some (default_config example_constants)) None initial_statics) = BONGOCAT_SUCCESS"
    "map_option cat_height (snapshot_of (load_config example_constants (fs_of unknown_key_file)
             (Some (default_config example_constants)) None initial_statics)) = Some 55"
    "warnings_of (snd (snd (load_config example_constants (fs_of unknown_key_file)
             (Some (default_config example_constants)) None initial_statics)))
       = [(WARNING, ''Unknown configuration key '%s' at line %d'', [S ''foo'', I 1])]"
    "\<not> ignored_line (stored_line (''junk'' @ [CHR 0x0A]))"
    "sscanf_key_value (stored_line (''junk'' @ [CHR 0x0A])) = None"
    "sscanf_key_value (stored_line (''foo=bar'' @ [CHR 0x0A])) = Some (''foo'', ''bar'')"
    "trim_key ''foo'' \<notin> set known_keys"
    by code_simp+
  note t1 = parse_config_file_tolerant [of no_files None example_constants "default_config example_constants"
      initial_statics]
  note t2 = parse_config_file_tolerant [of "fs_of unknown_key_file" None example_constants
      "default_config example_constants" initial_statics]
  from t1 facts(1) have
    "parse_config_file example_constants no_files (Some (default_config example_constants)) None
        initial_statics
      = (BONGOCAT_SUCCESS, Some (default_config example_constants),
         log_line INFO ''Config file '%s' not found, using defaults'' [S (path_or_default None)]
           initial_statics)"
    by blast
  then have m:
    "fst (parse_config_file example_constants no_files (Some (default_config example_constants)) None
             initial_statics) = BONGOCAT_SUCCESS"
    "snapshot_of (parse_config_file example_constants no_files (Some (default_config example_constants)) None
             initial_statics) = Some (default_config example_constants)"
    by (simp_all add: snapshot_of_def)
  from t2 facts(3) have u:
    "fst (parse_config_file example_constants (fs_of unknown_key_file)
             (Some (default_config example_constants)) None initial_statics) = BONGOCAT_SUCCESS"
    by blast
  from facts m u show ?thesis by blast
qed

lemma parse_config_file_snapshot:
  "parse_config_file K fs (Some c) path st = (r, p, st') \<Longrightarrow> \<exists>c'. p = Some c'"
  by (auto simp: parse_config_file_def Let_def split: option.splits)

lemma load_config_success:
  assumes "load_config K fs p path st = (BONGOCAT_SUCCESS, p', st')"
  shows "\<exists>c2. p' = Some ((validated K c2)\<lparr>bar_height := overlay_height (validated K c2)\<rparr>)"
proof -
  from assms obtain x where p: "p = Some x"
    by (cases p) (simp_all add: load_config_def)
  obtain c1 st1 where d: "set_default_device (default_config K) st = (c1, st1)"
    by (cases "set_default_device (default_config K) st")
  obtain r2 p2 st2 where pc: "parse_config_file K fs (Some c1) path st1 = (r2, p2, st2)"
    by (cases "parse_config_file K fs (Some c1) path st1")
  from parse_config_file_snapshot [OF pc] obtain c2 where p2: "p2 = Some c2" by blast
  from assms show ?thesis
    by (auto simp add: load_config_def p d pc p2 validate_config_Some Let_def split: if_splits)
qed

text \<open>
  C10. After every successful \<^verbatim>\<open>load_config\<close> the snapshot's \<^verbatim>\<open>bar_height\<close> equals its
  \<^verbatim>\<open>overlay_height\<close>, and so lies within 20 and 300, whatever the default of
  \<^verbatim>\<open>bar_height\<close> is.
\<close>

theorem load_config_bar_height:
  "load_config K fs p path st = (BONGOCAT_SUCCESS, p', st') \<Longrightarrow>
     \<exists>c. p' = Some c \<and> bar_height c = overlay_height c \<and> 20 \<le> bar_height c \<and> bar_height c \<le> 300"
proof -
  assume "load_config K fs p path st = (BONGOCAT_SUCCESS, p', st')"
  from load_config_success [OF this] obtain c2
    where p': "p' = Some ((validated K c2)\<lparr>bar_height := overlay_height (validated K c2)\<rparr>)" by blast
  have "overlay_height (validated K c2) = clamp_to 20 300 (overlay_height c2)"
    by (simp add: validated_fields MIN_OVERLAY_HEIGHT_def MAX_OVERLAY_HEIGHT_def)
  with clamp_to_bounds [of 20 300 "overlay_height c2"] p' show ?thesis by simp
qed

text \<open>
  A file that asks for the overlay height 500: the load succeeds, the overlay height is
  clamped to 300 and the bar height, 40 by default here, is 300 as well.
\<close>

theorem load_config_bar_height_witness:
  "fst (load_config example_constants (fs_of (file_of_lines [''overlay_height=500'']))
          (Some (default_config example_constants)) None initial_statics) = BONGOCAT_SUCCESS
   \<and> (\<exists>c. snapshot_of (load_config example_constants (fs_of (file_of_lines [''overlay_height=500'']))
               (Some (default_config example_constants)) None initial_statics) = Some c
          \<and> bar_height c = overlay_height c \<and> 20 \<le> bar_height c \<and> bar_height c \<le> 300)
   \<and> map_option bar_height (snapshot_of (load_config example_constants
          (fs_of (file_of_lines [''overlay_height=500'']))
          (Some (default_config example_constants)) None initial_statics)) = Some 300"
proof -
  obtain r p st where l: "load_config example_constants (fs_of (file_of_lines [''overlay_height=500'']))
          (Some (default_config example_constants)) None initial_statics = (r, p, st)"
    by (cases "load_config example_constants (fs_of (file_of_lines [''overlay_height=500'']))
          (Some (default_config example_constants)) None initial_statics")
  have "fst (load_config example_constants (fs_of (file_of_lines [''overlay_height=500'']))
          (Some (default_config example_constants)) None initial_statics) = BONGOCAT_SUCCESS"
    and b: "map_option bar_height (snapshot_of (load_config example_constants
          (fs_of (file_of_lines [''overlay_height=500'']))
          (Some (default_config example_constants)) None initial_statics)) = Some 300"
    by code_simp+
  with l have r: "r = BONGOCAT_SUCCESS" by simp
  from load_config_bar_height [OF l [unfolded r]] l r b show ?thesis
    by (simp add: snapshot_of_def)
qed

section \<open>Properties of the reload\<close>

text \<open>
  When the \<^verbatim>\<open>load_config\<close> call of the reload callback does not return success, the
  callback returns with every field of \<^verbatim>\<open>g_config\<close> as it was, the pointer
  \<^verbatim>\<open>keyboard_devices\<close> among them, and without a call to the renderer, the animation or
  the input monitor; it only logs two lines.
\<close>

lemma reload_failure_keeps_fields:
  "candidate_load K fs temp_config config_path s = (r, p, st)
   \<Longrightarrow> r \<noteq> BONGOCAT_SUCCESS
   \<Longrightarrow> \<exists>s'. config_reload_callback K fs temp_config input_result config_path s = Some s'
           \<and> g_config s' = g_config s \<and> calls s' = calls s \<and> running s' = running s
           \<and> log_lines (statics s')
               = log_lines st @ [(ERROR, ''Failed to reload config: %s'', [S (bongocat_error_string r)]),
                                 (INFO, ''Keeping current configuration'', [])]"
  by (simp add: candidate_load_def config_reload_callback_def Let_def main_log_def log_line_def)

text \<open>
  C1, evaluated. A failed reload does not leave the previous configuration as it was.
  The live configuration has the devices event4 and event3, in the static array that
  \<^verbatim>\<open>load_config\<close> works on. The reload reads a device line: \<^verbatim>\<open>realloc\<close> moves the array,
  the allocation of the string fails, and \<^verbatim>\<open>load_config\<close> returns the memory error. The
  callback keeps the fields of \<^verbatim>\<open>g_config\<close> and calls no subsystem, but the pointer
  \<^verbatim>\<open>keyboard_devices\<close> of the live configuration now points to the freed block, where no
  device can be read. In the second run the third allocation fails on a file with two
  device lines: the first device of the failed candidate stays in the array behind the
  live pointer, and the static state then counts three devices and has lost its pointer.
\<close>

theorem reload_failure_frees_live_devices:
  "fst (candidate_load example_constants (fs_of (device_file ''60'')) (default_config example_constants)
          ''bongocat.conf'' moved_then_failed_state) = BONGOCAT_ERROR_MEMORY
   \<and> map_option g_config (reload_result (device_file ''60'') moved_then_failed_state)
       = Some (g_config moved_then_failed_state)
   \<and> map_option calls (reload_result (device_file ''60'') moved_then_failed_state)
       = Some (calls moved_then_failed_state)
   \<and> keyboard_devices (g_config moved_then_failed_state) = Some 1
   \<and> num_keyboard_devices (g_config moved_then_failed_state) = 2
   \<and> device_list (heap (statics moved_then_failed_state)) (g_config moved_then_failed_state)
       = [Some ''/dev/input/event4'', Some ''/dev/input/event3'']
   \<and> map_option (\<lambda>s'. device_list (heap (statics s')) (g_config s'))
         (reload_result (device_file ''60'') moved_then_failed_state)
       = Some [None, None]
   \<and> fst (candidate_load example_constants (fs_of two_device_file) (default_config example_constants)
          ''bongocat.conf'' third_allocation_fails_state) = BONGOCAT_ERROR_MEMORY
   \<and> config_num_devices (statics third_allocation_fails_state) = 2
   \<and> map_option (\<lambda>s'. config_num_devices (statics s'))
         (reload_result two_device_file third_allocation_fails_state) = Some 3
   \<and> map_option (\<lambda>s'. config_keyboard_devices (statics s'))
         (reload_result two_device_file third_allocation_fails_state) = Some None
   \<and> map_option (\<lambda>s'. heap (statics s') 1)
         (reload_result two_device_file third_allocation_fails_state)
       = Some (Some [Some ''/dev/input/event4'', Some ''/dev/input/event3'', Some ''/dev/input/event5''])"
  by code_simp

text \<open>
  C5, evaluated. Two successive calls of \<^verbatim>\<open>load_config\<close> on the same unchanged file do
  not give the same snapshot. With one device line in the file the first call gives two
  devices (the default and the file's), the second gives three, the file's device twice.
  With no device line the first call gives the default device, the second gives no device
  and a null pointer.
\<close>

theorem load_config_twice_differs:
  "fst (fst (load_twice (device_file ''30''))) = BONGOCAT_SUCCESS
   \<and> fst (snd (load_twice (device_file ''30''))) = BONGOCAT_SUCCESS
   \<and> map_option num_keyboard_devices (snapshot_of (fst (load_twice (device_file ''30'')))) = Some 2
   \<and> map_option num_keyboard_devices (snapshot_of (snd (load_twice (device_file ''30'')))) = Some 3
   \<and> loaded_devices (fst (load_twice (device_file ''30'')))
       = [Some ''/dev/input/event4'', Some ''/dev/input/event3'']
   \<and> loaded_devices (snd (load_twice (device_file ''30'')))
       = [Some ''/dev/input/event4'', Some ''/dev/input/event3'', Some ''/dev/input/event3'']
   \<and> snapshot_of (fst (load_twice (device_file ''30''))) \<noteq> snapshot_of (snd (load_twice (device_file ''30'')))
   \<and> fst (fst (load_twice (plain_file ''30''))) = BONGOCAT_SUCCESS
   \<and> fst (snd (load_twice (plain_file ''30''))) = BONGOCAT_SUCCESS
   \<and> map_option num_keyboard_devices (snapshot_of (fst (load_twice (plain_file ''30'')))) = Some 1
   \<and> map_option num_keyboard_devices (snapshot_of (snd (load_twice (plain_file ''30'')))) = Some 0
   \<and> map_option keyboard_devices (snapshot_of (snd (load_twice (plain_file ''30'')))) = Some None
   \<and> loaded_devices (fst (load_twice (plain_file ''30''))) = [Some ''/dev/input/event4'']
   \<and> loaded_devices (snd (load_twice (plain_file ''30''))) = []
   \<and> snapshot_of (fst (load_twice (plain_file ''30''))) \<noteq> snapshot_of (snd (load_twice (plain_file ''30'')))"
  by code_simp

lemma set_device_list: "set (device_list h c) = device_at h c ` set [0 ..< nat (num_keyboard_devices c)]"
  by (simp add: device_list_def)

lemma find_old_device_readable:
  "None \<notin> device_at h old_config ` set js \<Longrightarrow>
     find_old_device h old_config dev js = Some (Some dev \<in> device_at h old_config ` set js)"
  by (induction js) (auto split: option.splits)

lemma any_new_device_readable:
  assumes "None \<notin> device_at h new_config ` set is"
    and "None \<notin> set (device_list h old_config)"
  shows "any_new_device h old_config new_config is
           = Some (\<not> device_at h new_config ` set is \<subseteq> set (device_list h old_config))"
  using assms(1)
proof (induction "is")
  case Nil
  then show ?case by simp
next
  case (Cons i "is")
  from Cons.prems obtain dev where d: "device_at h new_config i = Some dev"
    by (cases "device_at h new_config i") auto
  have f: "find_old_device h old_config dev [0 ..< nat (num_keyboard_devices old_config)]
             = Some (Some dev \<in> set (device_list h old_config))"
    using find_old_device_readable [of h old_config "[0 ..< nat (num_keyboard_devices old_config)]" dev]
      assms(2)
    by (simp add: set_device_list)
  from Cons show ?case by (auto simp add: d f)
qed

lemma config_devices_changed_readable:
  assumes "devices_readable h old_config" and "devices_readable h new_config"
  shows "config_devices_changed h old_config new_config
           = Some (num_keyboard_devices old_config \<noteq> num_keyboard_devices new_config
                   \<or> \<not> set (device_list h new_config) \<subseteq> set (device_list h old_config))"
  using any_new_device_readable [of h new_config "[0 ..< nat (num_keyboard_devices new_config)]" old_config]
    assms
  by (simp add: config_devices_changed_def devices_readable_def set_device_list)

lemma length_device_list: "length (device_list h c) = nat (num_keyboard_devices c)"
  by (simp add: device_list_def)

text \<open>
  On lists without a repeated path the test of \<^verbatim>\<open>config_devices_changed\<close> is the
  comparison of the two sets of paths.
\<close>

lemma config_devices_changed_distinct:
  assumes "devices_readable h old_config" and "devices_readable h new_config"
    and "0 \<le> num_keyboard_devices old_config" and "0 \<le> num_keyboard_devices new_config"
    and "distinct (device_list h old_config)" and "distinct (device_list h new_config)"
  shows "config_devices_changed h old_config new_config
           = Some (set (device_list h new_config) \<noteq> set (device_list h old_config))"
proof -
  let ?o = "device_list h old_config" and ?n = "device_list h new_config"
  have co: "card (set ?o) = nat (num_keyboard_devices old_config)"
    using distinct_card [OF assms(5)] by (simp add: length_device_list)
  have cn: "card (set ?n) = nat (num_keyboard_devices new_config)"
    using distinct_card [OF assms(6)] by (simp add: length_device_list)
  have "(num_keyboard_devices old_config \<noteq> num_keyboard_devices new_config \<or> \<not> set ?n \<subseteq> set ?o)
          = (set ?n \<noteq> set ?o)"
  proof (cases "num_keyboard_devices old_config = num_keyboard_devices new_config")
    case True
    then have "card (set ?n) = card (set ?o)" using co cn by simp
    then have "set ?n \<subseteq> set ?o \<Longrightarrow> set ?n = set ?o"
      by (simp add: card_subset_eq)
    with True show ?thesis by auto
  next
    case False
    with assms(3,4) have "card (set ?n) \<noteq> card (set ?o)" using co cn by simp
    then have "set ?n \<noteq> set ?o" by auto
    with False show ?thesis by simp
  qed
  with config_devices_changed_readable [OF assms(1,2)] show ?thesis by simp
qed

text \<open>
  C8, evaluated. A reload with the device lines unchanged restarts the input monitor.
  The configuration is loaded from a file with one device line and fps 30: the live
  device list is event4, event3. A reload of the file with nothing but fps changed to 60,
  and a reload of the very same file, both end with a call of
  \<^verbatim>\<open>input_restart_monitoring\<close>, with three devices: the second \<^verbatim>\<open>load_config\<close> appends the
  device line to the array the first one left, so the counts differ. With no device line
  in the file a reload that changes nothing but fps restarts the input monitor with no
  device at all.
\<close>

theorem fps_only_reload_restarts_input:
  "num_keyboard_devices (g_config (state_after_load (device_file ''30''))) = 2
   \<and> device_list (heap (statics (state_after_load (device_file ''30''))))
        (g_config (state_after_load (device_file ''30'')))
       = [Some ''/dev/input/event4'', Some ''/dev/input/event3'']
   \<and> map_option calls (reload_result (device_file ''60'') (state_after_load (device_file ''30'')))
       = Some [Wayland_update_config
                 ((default_config example_constants)
                    \<lparr>keyboard_devices := Some 1, num_keyboard_devices := 3, fps := 60, bar_height := 50\<rparr>),
               Input_restart_monitoring (Some 1) 3 1]
   \<and> map_option calls (reload_result (device_file ''30'') (state_after_load (device_file ''30'')))
       = Some [Wayland_update_config
                 ((default_config example_constants)
                    \<lparr>keyboard_devices := Some 1, num_keyboard_devices := 3, fps := 30, bar_height := 50\<rparr>),
               Input_restart_monitoring (Some 1) 3 1]
   \<and> num_keyboard_devices (g_config (state_after_load (plain_file ''30''))) = 1
   \<and> map_option calls (reload_result (plain_file ''60'') (state_after_load (plain_file ''30'')))
       = Some [Wayland_update_config
                 ((default_config example_constants)\<lparr>fps := 60, bar_height := 50\<rparr>),
               Input_restart_monitoring None 0 1]"
  by code_simp

end
